theory Spec2Isabelle
  imports Complex_Main "HOL-Library.Word"
begin

unbundle bit_operations_syntax

section \<open>VSON WP6810 monitor: protocol engine of \<open>monitor.py\<close>\<close>

text \<open>
  A shallow embedding of the frame decoders, the notification handler, the handshake
  and the reconnection loop of \<open>monitor.py\<close>. Python \<open>bytes\<close> are lists of 8-bit
  words, Python integers are \<open>int\<close>, Python floats are the rationals that IEEE-754
  binary64 can hold, every exception is a value of \<open>exn\<close>, and the module-level
  objects \<open>config\<close> and \<open>sensor_state\<close> are records passed explicitly.
\<close>

subsection \<open>Bytes, exceptions\<close>

type_synonym byte = "8 word"

datatype exn =
    IndexError
  | CancelledError
  | KeyboardInterrupt
  | TimeoutError
  | BleakError string
  | OSError string
  | RuntimeError string
  | ValueError string
  | SystemExit int

text \<open>Sequencing of computations that may raise: the first exception wins.\<close>

definition bind_exn :: "exn + 'a \<Rightarrow> ('a \<Rightarrow> exn + 'b) \<Rightarrow> exn + 'b" where
  "bind_exn m f = (case m of Inl e \<Rightarrow> Inl e | Inr x \<Rightarrow> f x)"

text \<open>\<open>buf[i]\<close> for a literal, non-negative index: IndexError out of range.\<close>

definition getitem :: "byte list \<Rightarrow> nat \<Rightarrow> exn + int" where
  "getitem buf i = (if i < length buf then Inr (uint (buf ! i)) else Inl IndexError)"

text \<open>\<open>buf[a:b]\<close> for literal bounds \<open>0 \<le> a \<le> b\<close>: a slice never raises.\<close>

definition slice :: "byte list \<Rightarrow> nat \<Rightarrow> nat \<Rightarrow> byte list" where
  "slice buf a b = take (b - a) (drop a buf)"

subsection \<open>Python floats: IEEE-754 binary64, round to nearest, ties to even\<close>

text \<open>
  A float is the rational it denotes. \<open>fl64 x\<close> is the binary64 value nearest to \<open>x\<close>
  (53 significant bits, ties to even), for \<open>x\<close> in the normal range; the program's
  values (particle counts below \<open>10\<^sup>7\<close>, Unix times and their differences) never leave
  it. Each float operation of the source is the exact operation followed by \<open>fl64\<close>.
\<close>

fun bitlen_nat :: "nat \<Rightarrow> nat" where
  "bitlen_nat n = (if n = 0 then 0 else Suc (bitlen_nat (n div 2)))"

declare bitlen_nat.simps [simp del]

definition pow2 :: "int \<Rightarrow> rat" where
  "pow2 e = (if 0 \<le> e then 2 ^ nat e else 1 / 2 ^ nat (- e))"

text \<open>\<open>ilog2 x\<close> is \<open>\<lfloor>log\<^sub>2 x\<rfloor>\<close> for \<open>x > 0\<close>.\<close>

definition ilog2 :: "rat \<Rightarrow> int" where
  "ilog2 x = (if 1 \<le> x then int (bitlen_nat (nat \<lfloor>x\<rfloor>)) - 1
              else - int (bitlen_nat (nat (\<lceil>1 / x\<rceil> - 1))))"

definition round_half_even :: "rat \<Rightarrow> int" where
  "round_half_even x =
     (let f = \<lfloor>x\<rfloor>; d = x - of_int f
      in if d < 1 / 2 then f
         else if 1 / 2 < d then f + 1
         else if even f then f else f + 1)"

definition fl64 :: "rat \<Rightarrow> rat" where
  "fl64 x =
     (if x = 0 then 0
      else let q = pow2 (ilog2 \<bar>x\<bar> - 52)
           in of_int (round_half_even (x / q)) * q)"

definition float_of_int :: "int \<Rightarrow> rat" where
  "float_of_int n = fl64 (of_int n)"

definition float_add :: "rat \<Rightarrow> rat \<Rightarrow> rat" where
  "float_add a b = fl64 (a + b)"

definition float_sub :: "rat \<Rightarrow> rat \<Rightarrow> rat" where
  "float_sub a b = fl64 (a - b)"

definition float_mul :: "rat \<Rightarrow> rat \<Rightarrow> rat" where
  "float_mul a b = fl64 (a * b)"

text \<open>Float division; the only divisor in the program is the constant 1000.0.\<close>

definition float_truediv :: "rat \<Rightarrow> rat \<Rightarrow> rat" where
  "float_truediv a b = fl64 (a / b)"

text \<open>
  \<open>round(x, 2)\<close>: the exact value of \<open>x\<close> rounded to two decimals, ties to even, then
  read back as a float.
\<close>

definition py_round2 :: "rat \<Rightarrow> rat" where
  "py_round2 x = fl64 (of_int (round_half_even (x * 100)) / 100)"

subsection \<open>Protocol constants\<close>

definition UUID_STATUS :: string where
  "UUID_STATUS = ''0000fff4-0000-1000-8000-00805f9b34fb''"

definition UUID_SHORT :: string where
  "UUID_SHORT = ''0000ffe3-0000-1000-8000-00805f9b34fb''"

definition UUID_META :: string where
  "UUID_META = ''0000ffe4-0000-1000-8000-00805f9b34fb''"

definition UUID_DATA :: string where
  "UUID_DATA = ''0000ffe1-0000-1000-8000-00805f9b34fb''"

definition UUID_KEY :: string where
  "UUID_KEY = ''0000fff1-0000-1000-8000-00805f9b34fb''"

definition UUID_CMD :: string where
  "UUID_CMD = ''0000fff3-0000-1000-8000-00805f9b34fb''"

definition META_FLAG_TIME_CONFIRMATION :: int where
  "META_FLAG_TIME_CONFIRMATION = 1"

definition META_FLAG_SHORT_RESPONSE :: int where
  "META_FLAG_SHORT_RESPONSE = 2"

definition PACKET_SIZE_META_SHORT :: nat where
  "PACKET_SIZE_META_SHORT = 2"

definition PACKET_SIZE_META_LONG :: nat where
  "PACKET_SIZE_META_LONG = 8"

definition CMD_START :: "byte list" where
  "CMD_START = [3]"

definition PACKET_SIZE_DATA :: nat where
  "PACKET_SIZE_DATA = 20"

definition PACKET_SIZE_META :: nat where
  "PACKET_SIZE_META = 8"

definition PARTICLE_MULTIPLIER_BASE :: int where
  "PARTICLE_MULTIPLIER_BASE = 256"

definition PARTICLE_MULTIPLIER_LSB :: int where
  "PARTICLE_MULTIPLIER_LSB = 6250"

text \<open>The literal \<open>3.53\<close> is the float nearest to 353/100; \<open>1000.0\<close> is exact.\<close>

definition PARTICLE_MULTIPLIER_CORRECTION :: rat where
  "PARTICLE_MULTIPLIER_CORRECTION = fl64 (353 / 100)"

definition PARTICLE_DIVISOR :: rat where
  "PARTICLE_DIVISOR = 1000"

subsection \<open>Protocol utilities and decoders\<close>

definition u16_le :: "byte list \<Rightarrow> nat \<Rightarrow> exn + int" where
  "u16_le buf off =
     bind_exn (getitem buf off) (\<lambda>lo.
     bind_exn (getitem buf (off + 1)) (\<lambda>hi.
       Inr (lo OR push_bit 8 hi)))"

record header_dt =
  year_offset :: int
  year_2000 :: int
  month :: int
  day :: int
  hour :: int
  minute :: int
  second :: int

definition decode_header_datetime :: "byte list \<Rightarrow> exn + header_dt option" where
  "decode_header_datetime header =
     (if length header \<noteq> 6 then Inr None
      else
        bind_exn (getitem header 0) (\<lambda>yo.
        bind_exn (getitem header 1) (\<lambda>mo.
        bind_exn (getitem header 2) (\<lambda>d.
        bind_exn (getitem header 3) (\<lambda>h.
        bind_exn (getitem header 4) (\<lambda>mi.
        bind_exn (getitem header 5) (\<lambda>s.
          Inr (Some \<lparr>year_offset = yo, year_2000 = 2000 + yo, month = mo, day = d,
                     hour = h, minute = mi, second = s\<rparr>))))))))"

record data_frame =
  header :: "header_dt option"
  pm25 :: int
  pm1 :: int
  pm10 :: int
  unknown1 :: int
  unused4 :: "byte list"
  counter :: int
  flag :: int
  flag_meaning :: string
  particles :: rat
  particles_msb :: int
  particles_lsb :: int

definition decode_data_frame :: "byte list \<Rightarrow> exn + data_frame option" where
  "decode_data_frame payload =
     (if length payload \<noteq> PACKET_SIZE_DATA then Inr None
      else
        bind_exn (decode_header_datetime (slice payload 0 6)) (\<lambda>header_decoded.
        bind_exn (u16_le payload 6) (\<lambda>pm25v.
        bind_exn (u16_le payload 8) (\<lambda>pm1v.
        bind_exn (u16_le payload 10) (\<lambda>pm10v.
        bind_exn (u16_le payload 12) (\<lambda>unknown1v.
        bind_exn (getitem payload 18) (\<lambda>counterv.
        bind_exn (getitem payload 19) (\<lambda>flagv.
          let msb = (drop_bit 8 pm25v) AND 255;
              lsb = pm25v AND 255;
              particlesv =
                float_add (float_of_int (msb * PARTICLE_MULTIPLIER_BASE))
                  (float_truediv
                     (float_mul (float_of_int (lsb * PARTICLE_MULTIPLIER_LSB))
                        PARTICLE_MULTIPLIER_CORRECTION)
                     PARTICLE_DIVISOR)
          in Inr (Some \<lparr>header = header_decoded, pm25 = pm25v, pm1 = pm1v, pm10 = pm10v,
                         unknown1 = unknown1v, unused4 = slice payload 14 18,
                         counter = counterv, flag = flagv,
                         flag_meaning = (if flagv = 1 then ''current'' else ''history''),
                         particles = particlesv, particles_msb = msb,
                         particles_lsb = lsb\<rparr>)))))))))"

record status_frame =
  battery_raw :: int
  battery_percent :: int

definition decode_status_battery :: "byte list \<Rightarrow> exn + status_frame option" where
  "decode_status_battery payload =
     (if length payload < 1 then Inr None
      else bind_exn (getitem payload 0) (\<lambda>level.
             Inr (Some \<lparr>battery_raw = level, battery_percent = level\<rparr>)))"

record meta_frame =
  meta_flag :: int
  meta_year :: int
  meta_month :: int
  meta_day :: int
  meta_hour :: int
  meta_minute :: int
  meta_second :: int
  meta_mode :: int

definition decode_meta_time_mode :: "byte list \<Rightarrow> exn + meta_frame option" where
  "decode_meta_time_mode payload =
     (if length payload \<noteq> PACKET_SIZE_META then Inr None
      else
        bind_exn (getitem payload 0) (\<lambda>fl.
        bind_exn (getitem payload 1) (\<lambda>y.
        bind_exn (getitem payload 2) (\<lambda>mo.
        bind_exn (getitem payload 3) (\<lambda>d.
        bind_exn (getitem payload 4) (\<lambda>h.
        bind_exn (getitem payload 5) (\<lambda>mi.
        bind_exn (getitem payload 6) (\<lambda>s.
        bind_exn (getitem payload 7) (\<lambda>md.
          Inr (Some \<lparr>meta_flag = fl, meta_year = 2000 + y, meta_month = mo, meta_day = d,
                     meta_hour = h, meta_minute = mi, meta_second = s,
                     meta_mode = md\<rparr>))))))))))"

subsection \<open>Configuration and runtime state\<close>

text \<open>
  The fields of \<open>Config\<close> that the protocol engine reads. The broker address and
  credentials and the logging options only reach the MQTT client and the logging
  set-up. \<open>mqtt_client\<close> says whether a client object is stored;
  \<open>mqtt_fatal_error\<close> is written by the MQTT callbacks on their own thread, so every
  read of it is an input of the model.
\<close>

record config =
  device_address :: string
  output_format :: string
  include_history :: bool
  mqtt_enabled :: bool
  mqtt_topic :: string
  mqtt_auto_discovery :: bool
  mqtt_client :: bool
  response_timeout :: int

record sensor_state =
  latest_battery :: int
  last_data_time :: "rat option"

text \<open>\<open>sensor_state = SensorState()\<close>, executed once when the module is loaded.\<close>

definition SensorState :: sensor_state where
  "SensorState = \<lparr>latest_battery = 0, last_data_time = None\<rparr>"

text \<open>\<open>config = Config()\<close>: the defaults, before the command line is applied.\<close>

definition Config :: config where
  "Config =
     \<lparr>device_address = [], output_format = ''text'', include_history = False,
      mqtt_enabled = False, mqtt_topic = ''homeassistant/sensor/vson'',
      mqtt_auto_discovery = False, mqtt_client = False, response_timeout = 300\<rparr>"

text \<open>The two clocks: \<open>time.time()\<close> and \<open>datetime.now()\<close>.\<close>

record datetime =
  dt_year :: int
  dt_month :: int
  dt_day :: int
  dt_hour :: int
  dt_minute :: int
  dt_second :: int
  dt_microsecond :: int

record clock =
  time_time :: rat
  datetime_now :: datetime

text \<open>A reading of both clocks at Unix time \<open>t\<close>, with a fixed calendar date.\<close>

definition clock_at :: "rat \<Rightarrow> clock" where
  "clock_at t =
     \<lparr>time_time = t,
      datetime_now = \<lparr>dt_year = 2025, dt_month = 6, dt_day = 15, dt_hour = 10,
                       dt_minute = 30, dt_second = 45, dt_microsecond = 0\<rparr>\<rparr>"

text \<open>The characteristic object a notification arrives with.\<close>

record characteristic =
  handle :: int
  uuid :: string

subsection \<open>Observable effects\<close>

text \<open>
  Everything the program does to the outside is an effect, kept in order: log records
  (with the values that go into the line, not the formatted text), lines printed on
  standard output, MQTT publications, transport operations and sleeps.
\<close>

datatype level = DEBUG | INFO | WARNING | ERROR

datatype msg =
    MsgNotification int string "byte list"
  | MsgInvalidData nat nat
  | MsgSkipHistorical int
  | MsgReading int int int rat string
  | MsgInvalidStatus
  | MsgBatteryLevel int
  | MsgEmptyMeta
  | MsgInvalidMetaLong nat nat
  | MsgMetaDecodeFailed
  | MsgTimeConfirmed int int int int int int int
  | MsgInvalidMetaShort nat nat
  | MsgMetaShort "byte list"
  | MsgUnknownMetaFlag int "byte list"
  | MsgShort "byte list"
  | MsgPublished string
  | MsgAuthKey string "byte list"
  | MsgCmdStart "byte list"
  | MsgTimeSync datetime
  | MsgTimeSyncBytes "byte list"
  | MsgNoResponse rat int
  | MsgReconnect int
  | MsgBleError string
  | MsgConnectionLost string
  | MsgUnexpected string
  | Note string

record json_reading =
  j_timestamp :: "(int \<times> int \<times> int \<times> int \<times> int \<times> int) option"
  j_pm1 :: int
  j_pm25 :: int
  j_pm10 :: int
  j_particles :: rat
  j_battery :: int

record mqtt_reading =
  q_timestamp :: datetime
  q_pm25 :: int
  q_pm1 :: int
  q_pm10 :: int
  q_particles :: rat
  q_battery :: int
  q_flag :: string

datatype effect =
    Log level msg
  | PrintReading json_reading
  | Publish string mqtt_reading
  | PublishDiscovery string
  | Connect string
  | Disconnect
  | StartNotify string
  | WriteGattChar string "byte list" bool
  | Sleep int

subsection \<open>Output formatting\<close>

text \<open>\<open>str.lower()\<close> on ASCII text (UUIDs and MAC addresses).\<close>

definition lower_char :: "char \<Rightarrow> char" where
  "lower_char c =
     (let n = (of_char c :: nat) in if 65 \<le> n \<and> n \<le> 90 then char_of (n + 32) else c)"

definition lower :: "string \<Rightarrow> string" where
  "lower s = map lower_char s"

definition output_text_data :: "data_frame \<Rightarrow> effect list" where
  "output_text_data decoded =
     [Log INFO (MsgReading (pm1 decoded) (pm25 decoded) (pm10 decoded) (particles decoded)
        (flag_meaning decoded))]"

definition output_json_data :: "sensor_state \<Rightarrow> data_frame \<Rightarrow> effect list" where
  "output_json_data st decoded =
     (let timestamp =
            (case header decoded of
               Some h \<Rightarrow> Some (year_2000 h, month h, day h, hour h, minute h, second h)
             | None \<Rightarrow> None)
      in [PrintReading \<lparr>j_timestamp = timestamp, j_pm1 = pm1 decoded, j_pm25 = pm25 decoded,
            j_pm10 = pm10 decoded, j_particles = py_round2 (particles decoded),
            j_battery = latest_battery st\<rparr>])"

text \<open>\<open>publish_mqtt\<close>: nothing without a client; the topic is built from the address.\<close>

definition publish_mqtt :: "config \<Rightarrow> mqtt_reading \<Rightarrow> string \<Rightarrow> effect list" where
  "publish_mqtt cfg data device_mac =
     (if \<not> mqtt_client cfg then []
      else
        let device_id = lower (filter (\<lambda>c. c \<noteq> CHR '':'') device_mac);
            state_topic = mqtt_topic cfg @ ''/'' @ device_id @ ''/state''
        in [Publish state_topic data, Log DEBUG (MsgPublished state_topic)])"

subsection \<open>Notification handler\<close>

text \<open>
  \<open>notification_handler(ch, data)\<close>. The result is the new \<open>sensor_state\<close> and the
  effects in order, or the exception that escapes.
\<close>

definition notification_handler ::
  "config \<Rightarrow> clock \<Rightarrow> characteristic \<Rightarrow> byte list \<Rightarrow> sensor_state
     \<Rightarrow> exn + (sensor_state \<times> effect list)" where
  "notification_handler cfg clk ch b st =
     (let uuid_lower = lower (uuid ch);
          fx0 = [Log DEBUG (MsgNotification (handle ch) (uuid ch) b)];
          st1 = st\<lparr>last_data_time := Some (time_time clk)\<rparr>
      in
        if uuid_lower = lower UUID_DATA then
          bind_exn (decode_data_frame b) (\<lambda>decoded.
            case decoded of
              None \<Rightarrow>
                Inr (st1, fx0 @ [Log WARNING (MsgInvalidData PACKET_SIZE_DATA (length b))])
            | Some d \<Rightarrow>
                if flag d = 0 \<and> \<not> include_history cfg then
                  Inr (st1, fx0 @ [Log DEBUG (MsgSkipHistorical (counter d))])
                else
                  Inr (st1, fx0
                    @ (if output_format cfg = ''json'' then output_json_data st1 d
                       else output_text_data d)
                    @ (if mqtt_enabled cfg then
                         publish_mqtt cfg
                           \<lparr>q_timestamp = datetime_now clk, q_pm25 = pm25 d, q_pm1 = pm1 d,
                            q_pm10 = pm10 d, q_particles = py_round2 (particles d),
                            q_battery = latest_battery st1, q_flag = flag_meaning d\<rparr>
                           (device_address cfg)
                       else [])))
        else if uuid_lower = lower UUID_STATUS then
          bind_exn (decode_status_battery b) (\<lambda>decoded.
            case decoded of
              None \<Rightarrow> Inr (st1, fx0 @ [Log WARNING MsgInvalidStatus])
            | Some d \<Rightarrow>
                Inr (st1\<lparr>latest_battery := battery_percent d\<rparr>,
                     fx0 @ [Log INFO (MsgBatteryLevel (battery_percent d))]))
        else if uuid_lower = lower UUID_META then
          (if length b = 0 then Inr (st1, fx0 @ [Log WARNING MsgEmptyMeta])
           else
             bind_exn (getitem b 0) (\<lambda>flagv.
               if flagv = META_FLAG_TIME_CONFIRMATION then
                 (if length b \<noteq> PACKET_SIZE_META_LONG then
                    Inr (st1, fx0
                      @ [Log WARNING (MsgInvalidMetaLong PACKET_SIZE_META_LONG (length b))])
                  else
                    bind_exn (decode_meta_time_mode b) (\<lambda>decoded.
                      case decoded of
                        None \<Rightarrow> Inr (st1, fx0 @ [Log WARNING MsgMetaDecodeFailed])
                      | Some m \<Rightarrow>
                          Inr (st1, fx0
                            @ [Log INFO (MsgTimeConfirmed (meta_year m) (meta_month m)
                                 (meta_day m) (meta_hour m) (meta_minute m) (meta_second m)
                                 (meta_mode m))])))
               else if flagv = META_FLAG_SHORT_RESPONSE then
                 (if length b \<noteq> PACKET_SIZE_META_SHORT then
                    Inr (st1, fx0
                      @ [Log WARNING (MsgInvalidMetaShort PACKET_SIZE_META_SHORT (length b))])
                  else Inr (st1, fx0 @ [Log DEBUG (MsgMetaShort b)]))
               else Inr (st1, fx0 @ [Log WARNING (MsgUnknownMetaFlag flagv b)])))
        else if uuid_lower = lower UUID_SHORT then
          Inr (st1, fx0 @ [Log DEBUG (MsgShort b)])
        else Inr (st1, fx0))"

subsection \<open>Handshake packets\<close>

text \<open>\<open>f"{n:06d}"\<close>: decimal digits, padded with zeros to at least six characters.\<close>

definition digit_char :: "nat \<Rightarrow> char" where
  "digit_char d = char_of (48 + d)"

fun dec_digits :: "nat \<Rightarrow> string" where
  "dec_digits n =
     (if n < 10 then [digit_char n] else dec_digits (n div 10) @ [digit_char (n mod 10)])"

declare dec_digits.simps [simp del]

definition format_06d :: "nat \<Rightarrow> string" where
  "format_06d n = (let ds = dec_digits n in replicate (6 - length ds) (CHR ''0'') @ ds)"

text \<open>\<open>str.encode("ascii")\<close> on ASCII text.\<close>

definition encode_ascii :: "string \<Rightarrow> byte list" where
  "encode_ascii s = map (\<lambda>c. of_char c) s"

text \<open>
  \<open>build_auth_key\<close>, with the value drawn by \<open>random.randint(0, 999999)\<close> as its
  argument.
\<close>

definition build_auth_key :: "nat \<Rightarrow> byte list \<times> string" where
  "build_auth_key rand_num =
     (let num_str = format_06d rand_num;
          ascii_digits = encode_ascii num_str;
          prefix = [0, 1];
          tail = replicate 10 0
      in (prefix @ ascii_digits @ tail, num_str))"

text \<open>\<open>build_time_sync\<close>, with the value of \<open>datetime.now()\<close> as its argument.\<close>

definition build_time_sync :: "datetime \<Rightarrow> byte list \<times> datetime" where
  "build_time_sync now =
     (let year_offset0 = dt_year now - 2000;
          year_offset = (if \<not> (0 \<le> year_offset0 \<and> year_offset0 \<le> 255) then 0 else year_offset0);
          time_bytes =
            map word_of_int
              [year_offset AND 255, dt_month now AND 255, dt_day now AND 255,
               dt_hour now AND 255, dt_minute now AND 255, dt_second now AND 255];
          tail = [0, 6, 64, 0, 30]
      in (time_bytes @ tail, now))"

subsection \<open>Awaiting: notifications arrive while the coroutine is suspended\<close>

record notification =
  n_clock :: clock
  n_char :: characteristic
  n_data :: "byte list"

text \<open>
  The callbacks run one at a time on the event loop. An exception escaping a callback
  would be reported by the loop and not reach the coroutine.
\<close>

fun deliver :: "config \<Rightarrow> notification list \<Rightarrow> sensor_state \<Rightarrow> sensor_state \<times> effect list" where
  "deliver cfg [] st = (st, [])"
| "deliver cfg (n # ns) st =
     (case notification_handler cfg (n_clock n) (n_char n) (n_data n) st of
        Inl e \<Rightarrow>
          (case deliver cfg ns st of
             (st2, fx2) \<Rightarrow> (st2, Log ERROR (Note ''Exception in callback'') # fx2))
      | Inr (st1, fx1) \<Rightarrow>
          (case deliver cfg ns st1 of (st2, fx2) \<Rightarrow> (st2, fx1 @ fx2)))"

text \<open>What the transport does with one awaited operation.\<close>

record await_env =
  arrivals :: "notification list"
  raises :: "exn option"

text \<open>What happens during one \<open>asyncio.sleep\<close>: it can only be cancelled.\<close>

record sleep_env =
  woken :: "notification list"
  cancelled :: bool

type_synonym outcome = "exn option \<times> sensor_state \<times> effect list"

definition await :: "config \<Rightarrow> await_env \<Rightarrow> effect \<Rightarrow> sensor_state \<Rightarrow> outcome" where
  "await cfg env operation st =
     (case deliver cfg (arrivals env) st of
        (st1, fx) \<Rightarrow> (raises env, st1, operation # fx))"

definition asyncio_sleep :: "config \<Rightarrow> sleep_env \<Rightarrow> int \<Rightarrow> sensor_state \<Rightarrow> outcome" where
  "asyncio_sleep cfg env secs st =
     (case deliver cfg (woken env) st of
        (st1, fx) \<Rightarrow>
          ((if cancelled env then Some CancelledError else None), st1, Sleep secs # fx))"

definition emit :: "effect list \<Rightarrow> sensor_state \<Rightarrow> outcome" where
  "emit fx st = (None, st, fx)"

text \<open>Statements in sequence: the first exception ends the block.\<close>

fun chain :: "(sensor_state \<Rightarrow> outcome) list \<Rightarrow> sensor_state \<Rightarrow> outcome" where
  "chain [] st = (None, st, [])"
| "chain (f # fs) st =
     (case f st of
        (Some e, st1, fx1) \<Rightarrow> (Some e, st1, fx1)
      | (None, st1, fx1) \<Rightarrow>
          (case chain fs st1 of (r, st2, fx2) \<Rightarrow> (r, st2, fx1 @ fx2)))"

subsection \<open>Device initialization\<close>

text \<open>
  \<open>initialize_device\<close>. \<open>hs k\<close> is what the transport does with the \<open>k\<close>-th awaited
  operation (0 to 3 the subscriptions, 4 to 6 the writes).
\<close>

definition initialize_device ::
  "config \<Rightarrow> (nat \<Rightarrow> await_env) \<Rightarrow> nat \<Rightarrow> datetime \<Rightarrow> sensor_state \<Rightarrow> outcome" where
  "initialize_device cfg hs rand_num wall =
     (let auth = build_auth_key rand_num;
          sync = build_time_sync wall
      in chain
        [emit [Log INFO (Note ''Starting device initialization...''),
               Log DEBUG (Note ''Enabling notifications...'')],
         await cfg (hs 0) (StartNotify UUID_STATUS),
         emit [Log DEBUG (Note ''STATUS notifications enabled'')],
         await cfg (hs 1) (StartNotify UUID_SHORT),
         emit [Log DEBUG (Note ''SHORT notifications enabled'')],
         await cfg (hs 2) (StartNotify UUID_META),
         emit [Log DEBUG (Note ''META notifications enabled'')],
         await cfg (hs 3) (StartNotify UUID_DATA),
         emit [Log DEBUG (Note ''DATA notifications enabled'')],
         emit [Log DEBUG (MsgAuthKey (snd auth) (fst auth))],
         await cfg (hs 4) (WriteGattChar UUID_KEY (fst auth) True),
         emit [Log DEBUG (Note ''Authentication key accepted'')],
         emit [Log DEBUG (MsgCmdStart CMD_START)],
         await cfg (hs 5) (WriteGattChar UUID_CMD CMD_START True),
         emit [Log DEBUG (Note ''CMD_START accepted'')],
         emit [Log INFO (MsgTimeSync (snd sync)), Log DEBUG (MsgTimeSyncBytes (fst sync))],
         await cfg (hs 6) (WriteGattChar UUID_KEY (fst sync) True),
         emit [Log DEBUG (Note ''Time sync accepted'')],
         emit [Log INFO (Note ''Device initialization completed'')]])"

subsection \<open>One connection: \<open>monitor_device_connection\<close>\<close>

text \<open>One turn of the listening loop: the two reads and the one-second sleep.\<close>

record poll_env =
  poll_fatal :: bool
  poll_time :: rat
  poll_sleep :: sleep_env

text \<open>Everything the outside does during one call of \<open>monitor_device_connection\<close>.\<close>

record session_env =
  fatal_at_start :: bool
  connect_env :: await_env
  is_connected :: bool
  handshake_env :: "nat \<Rightarrow> await_env"
  rand_num :: nat
  sync_now :: datetime
  listen_start :: rat
  polls :: "poll_env list"
  disconnect_env :: await_env

text \<open>
  The \<open>while True\<close> loop of the listening phase. It ends only by a \<open>break\<close> or an
  exception; when the turns described by the environment are used up and it is still
  running, there is no result.
\<close>

fun listen :: "config \<Rightarrow> poll_env list \<Rightarrow> sensor_state \<Rightarrow> outcome option" where
  "listen cfg [] st = None"
| "listen cfg (p # ps) st =
     (if poll_fatal p then
        Some (None, st, [Log ERROR (Note ''MQTT connection lost, stopping monitoring'')])
      else
        case (case last_data_time st of
                None \<Rightarrow> None
              | Some t \<Rightarrow>
                  let time_since_last_data = float_sub (poll_time p) t
                  in if time_since_last_data > of_int (response_timeout cfg)
                     then Some time_since_last_data else None) of
          Some d \<Rightarrow> Some (None, st, [Log WARNING (MsgNoResponse d (response_timeout cfg))])
        | None \<Rightarrow>
            (case asyncio_sleep cfg (poll_sleep p) 1 st of
               (Some e, st1, fx1) \<Rightarrow> Some (Some e, st1, fx1)
             | (None, st1, fx1) \<Rightarrow>
                 (case listen cfg ps st1 of
                    None \<Rightarrow> None
                  | Some (r, st2, fx2) \<Rightarrow> Some (r, st2, fx1 @ fx2))))"

text \<open>
  \<open>publish_home_assistant_discovery\<close>: the five retained discovery messages are one
  effect here.
\<close>

definition publish_home_assistant_discovery :: "config \<Rightarrow> string \<Rightarrow> effect list" where
  "publish_home_assistant_discovery cfg device_mac =
     (if \<not> mqtt_client cfg \<or> \<not> mqtt_auto_discovery cfg then []
      else [PublishDiscovery device_mac,
            Log INFO (Note ''Home Assistant MQTT discovery messages published'')])"

text \<open>The body of the \<open>async with\<close> block.\<close>

definition session_body :: "config \<Rightarrow> session_env \<Rightarrow> sensor_state \<Rightarrow> outcome option" where
  "session_body cfg env st =
     (if \<not> is_connected env then
        Some (None, st, [Log ERROR (Note ''Failed to connect to device'')])
      else
        case chain
               [emit [Log INFO (Note ''Connected successfully''),
                      Log DEBUG (Note ''Performing service discovery...''),
                      Log DEBUG (Note ''Service discovery completed'')],
                initialize_device cfg (handshake_env env) (rand_num env) (sync_now env),
                emit (if mqtt_auto_discovery cfg
                      then publish_home_assistant_discovery cfg (device_address cfg) else []),
                emit [Log INFO (Note ''Listening for sensor data'')]] st of
          (Some e, st1, fx1) \<Rightarrow> Some (Some e, st1, fx1)
        | (None, st1, fx1) \<Rightarrow>
            (case listen cfg (polls env) (st1\<lparr>last_data_time := Some (listen_start env)\<rparr>) of
               None \<Rightarrow> None
             | Some (r, st2, fx2) \<Rightarrow> Some (r, st2, fx1 @ fx2)))"

text \<open>The \<open>except\<close> clauses of \<open>monitor_device_connection\<close>: each logs and re-raises.\<close>

fun except_log :: "exn \<Rightarrow> effect list" where
  "except_log CancelledError = [Log DEBUG (Note ''Monitoring cancelled'')]"
| "except_log KeyboardInterrupt = [Log DEBUG (Note ''Keyboard interrupt received'')]"
| "except_log TimeoutError =
     [Log ERROR (Note ''BLE connection timeout - device did not respond'')]"
| "except_log (BleakError m) = [Log ERROR (MsgBleError m)]"
| "except_log e = []"

text \<open>
  \<open>monitor_device_connection\<close>. The result is \<open>None\<close> in the first component when the
  call returns, the exception when it raises. Leaving the \<open>async with\<close> block
  disconnects on every path; an exception of the disconnect replaces the pending one.
\<close>

definition monitor_device_connection ::
  "config \<Rightarrow> session_env \<Rightarrow> sensor_state \<Rightarrow> outcome option" where
  "monitor_device_connection cfg env st =
     (if fatal_at_start env then
        Some (Some (SystemExit 1), st,
              [Log ERROR (Note ''Aborting due to MQTT connection failure'')])
      else
        let fx0 = [Log INFO (Note ''Connecting'')] in
        case await cfg (connect_env env) (Connect (device_address cfg)) st of
          (Some e, st1, fx1) \<Rightarrow> Some (Some e, st1, fx0 @ fx1 @ except_log e)
        | (None, st1, fx1) \<Rightarrow>
            (case session_body cfg env st1 of
               None \<Rightarrow> None
             | Some (r, st2, fx2) \<Rightarrow>
                 (case await cfg (disconnect_env env) Disconnect st2 of
                    (r3, st3, fx3) \<Rightarrow>
                      let out = (case r3 of Some e \<Rightarrow> Some e | None \<Rightarrow> r)
                      in Some (out, st3,
                               fx0 @ fx1 @ fx2 @ fx3
                                 @ (case out of Some e \<Rightarrow> except_log e | None \<Rightarrow> [])))))"

subsection \<open>The reconnection loop: \<open>monitor_device\<close>\<close>

definition retry_delay :: int where
  "retry_delay = 5"

text \<open>
  What the \<open>try\<close> statement of the loop does with the way the connection ended: re-raise
  (\<open>Stop\<close>), or log and sleep before the next turn (\<open>Retry\<close>; the flag says whether the
  sleep is the one inside the \<open>try\<close> block, whose cancellation the
  \<open>except CancelledError\<close> clause logs).
\<close>

datatype disposition = Stop exn "effect list" | Retry "effect list" bool

fun dispatch :: "exn option \<Rightarrow> disposition" where
  "dispatch None = Retry [Log INFO (MsgReconnect retry_delay)] True"
| "dispatch (Some KeyboardInterrupt) =
     Stop KeyboardInterrupt [Log INFO (Note ''Interrupted by user, shutting down...'')]"
| "dispatch (Some CancelledError) =
     Stop CancelledError [Log DEBUG (Note ''Monitoring cancelled'')]"
| "dispatch (Some TimeoutError) =
     Retry [Log WARNING (Note ''Connection timeout''), Log INFO (MsgReconnect retry_delay)]
       False"
| "dispatch (Some (BleakError m)) =
     Retry [Log WARNING (MsgConnectionLost m), Log INFO (MsgReconnect retry_delay)] False"
| "dispatch (Some (OSError m)) =
     Retry [Log ERROR (MsgUnexpected m), Log INFO (MsgReconnect retry_delay)] False"
| "dispatch (Some (RuntimeError m)) =
     Retry [Log ERROR (MsgUnexpected m), Log INFO (MsgReconnect retry_delay)] False"
| "dispatch (Some (ValueError m)) =
     Retry [Log ERROR (MsgUnexpected m), Log INFO (MsgReconnect retry_delay)] False"
| "dispatch (Some e) = Stop e []"

text \<open>
  \<open>monitor_device\<close>: one connection and one retry sleep per turn. The loop has no
  \<open>break\<close>: it ends only by an exception, which is the result. When the turns described
  by the environment are used up, there is no result.
\<close>

fun monitor_device ::
  "config \<Rightarrow> (session_env \<times> sleep_env) list \<Rightarrow> sensor_state
     \<Rightarrow> (exn \<times> sensor_state \<times> effect list) option" where
  "monitor_device cfg [] st = None"
| "monitor_device cfg ((env, sl) # rest) st =
     (case monitor_device_connection cfg env st of
        None \<Rightarrow> None
      | Some (r, st1, fx1) \<Rightarrow>
          (case dispatch r of
             Stop e fx \<Rightarrow> Some (e, st1, fx1 @ fx)
           | Retry fx in_try \<Rightarrow>
               (case asyncio_sleep cfg sl retry_delay st1 of
                  (Some e, st2, fx2) \<Rightarrow>
                    Some (e, st2,
                          fx1 @ fx @ fx2
                            @ (if in_try then [Log DEBUG (Note ''Monitoring cancelled'')] else []))
                | (None, st2, fx2) \<Rightarrow>
                    (case monitor_device cfg rest st2 of
                       None \<Rightarrow> None
                     | Some (e, st3, fx3) \<Rightarrow> Some (e, st3, fx1 @ fx @ fx2 @ fx3)))))"

subsection \<open>Reading a trace\<close>

text \<open>
  The handler logs every frame it receives, with its channel and bytes, before anything
  else, so a trace records the frames in the order they were handled. \<open>status_byte\<close> is
  the battery byte of a trace entry that records a non-empty STATUS frame.
\<close>

definition status_byte :: "effect \<Rightarrow> int option" where
  "status_byte x =
     (case x of
        Log l m \<Rightarrow>
          (case m of
             MsgNotification h u b \<Rightarrow>
               (if lower u = lower UUID_STATUS \<and> b \<noteq> [] then Some (uint (hd b)) else None)
           | _ \<Rightarrow> None)
      | _ \<Rightarrow> None)"

text \<open>The battery field of an emitted reading (JSON line or MQTT state message).\<close>

definition reading_battery :: "effect \<Rightarrow> int option" where
  "reading_battery x =
     (case x of
        PrintReading r \<Rightarrow> Some (j_battery r)
      | Publish t q \<Rightarrow> Some (q_battery q)
      | _ \<Rightarrow> None)"

text \<open>
  \<open>battery_after d fx\<close>: byte 0 of the last non-empty STATUS frame recorded in \<open>fx\<close>,
  or \<open>d\<close> when there is none.
\<close>

primrec battery_after :: "int \<Rightarrow> effect list \<Rightarrow> int" where
  "battery_after d [] = d"
| "battery_after d (x # fx) =
     battery_after (case status_byte x of Some v \<Rightarrow> v | None \<Rightarrow> d) fx"

text \<open>
  \<open>readings_carry d fx\<close>: every reading emitted in \<open>fx\<close> carries byte 0 of the last
  non-empty STATUS frame recorded before it, or \<open>d\<close> when there is none before it.
\<close>

primrec readings_carry :: "int \<Rightarrow> effect list \<Rightarrow> bool" where
  "readings_carry d [] = True"
| "readings_carry d (x # fx) =
     ((case reading_battery x of Some v \<Rightarrow> v = d | None \<Rightarrow> True)
      \<and> readings_carry (case status_byte x of Some v \<Rightarrow> v | None \<Rightarrow> d) fx)"

text \<open>The trace without its DEBUG records: what a run shows without \<open>--debug\<close>.\<close>

definition visible :: "effect list \<Rightarrow> effect list" where
  "visible fx = filter (\<lambda>x. case x of Log l m \<Rightarrow> l \<noteq> DEBUG | _ \<Rightarrow> True) fx"

text \<open>The operations on the transport, in order.\<close>

definition transport_ops :: "effect list \<Rightarrow> effect list" where
  "transport_ops fx =
     filter (\<lambda>x. case x of
                    Connect a \<Rightarrow> True
                  | Disconnect \<Rightarrow> True
                  | StartNotify u \<Rightarrow> True
                  | WriteGattChar u d r \<Rightarrow> True
                  | _ \<Rightarrow> False) fx"

text \<open>
  \<open>tracks st st' fx\<close>: along the trace \<open>fx\<close>, which leads from state \<open>st\<close> to state \<open>st'\<close>,
  the readings carry the battery of the last STATUS frame before them, and the stored
  battery ends as that of the last STATUS frame of the trace.
\<close>

definition tracks :: "sensor_state \<Rightarrow> sensor_state \<Rightarrow> effect list \<Rightarrow> bool" where
  "tracks st st' fx =
     (readings_carry (latest_battery st) fx
      \<and> latest_battery st' = battery_after (latest_battery st) fx)"

text \<open>
  The DATA frames recorded in a trace for which the handler emits a reading: 20 bytes
  long and not dropped by the history filter (\<open>flag == 0 and not include_history\<close>).
\<close>

definition reading_frames :: "config \<Rightarrow> effect list \<Rightarrow> effect list" where
  "reading_frames cfg fx =
     filter (\<lambda>x. case x of
                    Log l m \<Rightarrow>
                      (case m of
                         MsgNotification h u b \<Rightarrow>
                           lower u = lower UUID_DATA \<and> length b = 20
                           \<and> (uint (b ! 19) \<noteq> 0 \<or> include_history cfg)
                       | _ \<Rightarrow> False)
                  | _ \<Rightarrow> False) fx"

text \<open>The JSON lines printed and the MQTT state messages published, in order.\<close>

definition json_lines :: "effect list \<Rightarrow> effect list" where
  "json_lines fx = filter (\<lambda>x. case x of PrintReading r \<Rightarrow> True | _ \<Rightarrow> False) fx"

definition state_messages :: "effect list \<Rightarrow> effect list" where
  "state_messages fx = filter (\<lambda>x. case x of Publish t q \<Rightarrow> True | _ \<Rightarrow> False) fx"

text \<open>
  \<open>emits cfg fx\<close>: the trace has one JSON line per such DATA frame when the output format
  is \<open>json\<close> and none otherwise, and one MQTT state message per such DATA frame when MQTT
  is enabled and a client exists and none otherwise.
\<close>

definition emits :: "config \<Rightarrow> effect list \<Rightarrow> bool" where
  "emits cfg fx =
     (length (json_lines fx) =
        (if output_format cfg = ''json'' then length (reading_frames cfg fx) else 0)
      \<and> length (state_messages fx) =
        (if mqtt_enabled cfg \<and> mqtt_client cfg then length (reading_frames cfg fx) else 0))"

text \<open>An effect that is neither a record of a received frame nor an emitted reading.\<close>

definition plain :: "effect \<Rightarrow> bool" where
  "plain x = (case x of
                PrintReading r \<Rightarrow> False
              | Publish t q \<Rightarrow> False
              | Log l m \<Rightarrow> (case m of MsgNotification h u b \<Rightarrow> False | _ \<Rightarrow> True)
              | _ \<Rightarrow> True)"

text \<open>Connections, frames received and readings emitted, in order.\<close>

definition milestones :: "effect list \<Rightarrow> effect list" where
  "milestones fx =
     filter (\<lambda>x. case x of
                    Connect a \<Rightarrow> True
                  | Disconnect \<Rightarrow> True
                  | PrintReading r \<Rightarrow> True
                  | Publish t q \<Rightarrow> True
                  | Log l m \<Rightarrow> (case m of MsgNotification h u b \<Rightarrow> True | _ \<Rightarrow> False)
                  | _ \<Rightarrow> False) fx"

text \<open>The two views of the result of a run: how it ended, and the filtered trace.\<close>

definition run_milestones ::
  "(exn \<times> sensor_state \<times> effect list) option \<Rightarrow> (exn \<times> int \<times> effect list) option" where
  "run_milestones res = map_option (\<lambda>(e, st, fx). (e, latest_battery st, milestones fx)) res"

definition run_visible ::
  "(exn \<times> sensor_state \<times> effect list) option \<Rightarrow> (exn \<times> effect list) option" where
  "run_visible res = map_option (\<lambda>(e, st, fx). (e, visible fx)) res"

subsection \<open>Well-formed inputs and sample environments\<close>

text \<open>The ranges that a Python \<open>datetime\<close> object guarantees for its fields.\<close>

definition valid_datetime :: "datetime \<Rightarrow> bool" where
  "valid_datetime t =
     (1 \<le> dt_year t \<and> dt_year t \<le> 9999 \<and> 1 \<le> dt_month t \<and> dt_month t \<le> 12
      \<and> 1 \<le> dt_day t \<and> dt_day t \<le> 31 \<and> 0 \<le> dt_hour t \<and> dt_hour t \<le> 23
      \<and> 0 \<le> dt_minute t \<and> dt_minute t \<le> 59 \<and> 0 \<le> dt_second t \<and> dt_second t \<le> 59
      \<and> 0 \<le> dt_microsecond t \<and> dt_microsecond t \<le> 999999)"

text \<open>An awaited operation that succeeds while nothing arrives, and a quiet sleep.\<close>

definition quiet_await :: await_env where
  "quiet_await = \<lparr>arrivals = [], raises = None\<rparr>"

definition quiet_sleep :: sleep_env where
  "quiet_sleep = \<lparr>woken = [], cancelled = False\<rparr>"

text \<open>
  A connection that is established and initialized without incident and starts
  listening at Unix time \<open>t\<close>; what happens while it listens is \<open>ps\<close>.
\<close>

definition smooth_session :: "rat \<Rightarrow> poll_env list \<Rightarrow> session_env" where
  "smooth_session t ps =
     \<lparr>fatal_at_start = False, connect_env = quiet_await, is_connected = True,
      handshake_env = (\<lambda>k. quiet_await), rand_num = 123456,
      sync_now = datetime_now (clock_at t), listen_start = t, polls = ps,
      disconnect_env = quiet_await\<rparr>"

text \<open>A DATA frame of a live reading (flag 1) with pm2.5 = 261, pm1 = 7, pm10 = 521.\<close>

definition live_frame :: "byte list" where
  "live_frame = [25, 6, 15, 10, 30, 45, 5, 1, 7, 0, 9, 2, 0, 0, 0, 0, 0, 0, 77, 1]"

section \<open>Properties\<close>

subsection \<open>Decoders\<close>

lemma getitem_in [simp]: "i < length buf \<Longrightarrow> getitem buf i = Inr (uint (buf ! i))"
  by (simp add: getitem_def)

lemma bind_exn_Inr [simp]: "bind_exn (Inr x) f = f x"
  by (simp add: bind_exn_def)

lemma bind_exn_Inl [simp]: "bind_exn (Inl e) f = Inl e"
  by (simp add: bind_exn_def)

lemma or_push_bit_byte: "uint (a :: byte) OR push_bit 8 (uint (b :: byte)) = uint a + 256 * uint b"
proof -
  have "take_bit 8 (uint a) = uint a"
    by (rule take_bit_int_eq_self) (use uint_lt2p [of a] in simp_all)
  then have "uint a OR push_bit 8 (uint b) = concat_bit 8 (uint a) (uint b)"
    by (simp add: concat_bit_def)
  also have "\<dots> = uint a + 256 * uint b"
    by (simp add: concat_bit_eq push_bit_eq_mult \<open>take_bit 8 (uint a) = uint a\<close>)
  finally show ?thesis .
qed

lemma u16_le_in: "off + 1 < length buf \<Longrightarrow>
  u16_le buf off = Inr (uint (buf ! off) + 256 * uint (buf ! (off + 1)))"
  by (simp add: u16_le_def or_push_bit_byte)

lemma decode_header_datetime_6: "length h = 6 \<Longrightarrow>
  decode_header_datetime h = Inr (Some \<lparr>year_offset = uint (h ! 0), year_2000 = 2000 + uint (h ! 0),
     month = uint (h ! 1), day = uint (h ! 2), hour = uint (h ! 3), minute = uint (h ! 4),
     second = uint (h ! 5)\<rparr>)"
  by (simp add: decode_header_datetime_def)

lemma slice_header: "length p = 20 \<Longrightarrow> length (slice p 0 6) = 6"
  by (simp add: slice_def)


lemma decode_data_frame_not20: "length payload \<noteq> 20 \<Longrightarrow> decode_data_frame payload = Inr None"
  by (simp add: decode_data_frame_def PACKET_SIZE_DATA_def)

lemma decode_data_frame_20:
  assumes "length payload = 20"
  shows "\<exists>d. decode_data_frame payload = Inr (Some d)
    \<and> header d = Some \<lparr>year_offset = uint (payload ! 0), year_2000 = 2000 + uint (payload ! 0),
             month = uint (payload ! 1), day = uint (payload ! 2), hour = uint (payload ! 3),
             minute = uint (payload ! 4), second = uint (payload ! 5)\<rparr>
    \<and> pm25 d = uint (payload ! 6) + 256 * uint (payload ! 7)
    \<and> pm1 d = uint (payload ! 8) + 256 * uint (payload ! 9)
    \<and> pm10 d = uint (payload ! 10) + 256 * uint (payload ! 11)
    \<and> counter d = uint (payload ! 18)
    \<and> flag d = uint (payload ! 19)
    \<and> flag_meaning d = (if uint (payload ! 19) = 1 then ''current'' else ''history'')
    \<and> particles d =
        float_add (float_of_int ((drop_bit 8 (pm25 d) AND 255) * PARTICLE_MULTIPLIER_BASE))
          (float_truediv
             (float_mul (float_of_int ((pm25 d AND 255) * PARTICLE_MULTIPLIER_LSB))
                PARTICLE_MULTIPLIER_CORRECTION)
             PARTICLE_DIVISOR)"
  using assms
  by (simp add: decode_data_frame_def PACKET_SIZE_DATA_def decode_header_datetime_6 slice_header
      u16_le_in Let_def slice_def)

text \<open>
  Claim C3. The DATA decoder returns the failure \<open>None\<close> for every buffer whose length
  is not 20 (and never raises); for every 20-byte buffer it returns a reading whose
  pm2.5, pm1 and pm10 are the little-endian unsigned 16-bit values at offsets 6-7, 8-9
  and 10-11, and whose record counter is byte 18.
\<close>

theorem decode_data_frame_layout:
  "(length payload \<noteq> 20 \<longrightarrow> decode_data_frame payload = Inr None) \<and>
   (length payload = 20 \<longrightarrow>
      (\<exists>d. decode_data_frame payload = Inr (Some d)
         \<and> pm25 d = uint (payload ! 6) + 256 * uint (payload ! 7)
         \<and> pm1 d = uint (payload ! 8) + 256 * uint (payload ! 9)
         \<and> pm10 d = uint (payload ! 10) + 256 * uint (payload ! 11)
         \<and> counter d = uint (payload ! 18)))"
proof (intro conjI impI)
  assume "length payload \<noteq> 20"
  then show "decode_data_frame payload = Inr None"
    by (rule decode_data_frame_not20)
next
  assume "length payload = 20"
  from decode_data_frame_20 [OF this] obtain d where
    "decode_data_frame payload = Inr (Some d)"
    "pm25 d = uint (payload ! 6) + 256 * uint (payload ! 7)"
    "pm1 d = uint (payload ! 8) + 256 * uint (payload ! 9)"
    "pm10 d = uint (payload ! 10) + 256 * uint (payload ! 11)"
    "counter d = uint (payload ! 18)"
    by blast
  then show "\<exists>d. decode_data_frame payload = Inr (Some d)
         \<and> pm25 d = uint (payload ! 6) + 256 * uint (payload ! 7)
         \<and> pm1 d = uint (payload ! 8) + 256 * uint (payload ! 9)
         \<and> pm10 d = uint (payload ! 10) + 256 * uint (payload ! 11)
         \<and> counter d = uint (payload ! 18)"
    by blast
qed

theorem decode_data_frame_layout_witness:
  "decode_data_frame [1, 2, 3] = Inr None \<and>
   (\<exists>d. decode_data_frame [25, 6, 15, 10, 30, 45, 5, 1, 7, 0, 9, 2, 0, 0, 0, 0, 0, 0, 77, 1]
           = Inr (Some d)
      \<and> pm25 d = 261 \<and> pm1 d = 7 \<and> pm10 d = 521 \<and> counter d = 77)"
  using decode_data_frame_layout [of "[1, 2, 3]"]
    decode_data_frame_layout
      [of "[25, 6, 15, 10, 30, 45, 5, 1, 7, 0, 9, 2, 0, 0, 0, 0, 0, 0, 77, 1]"]
  by simp


subsection \<open>Evaluating the float model\<close>

lemma bitlen_nat_numeral:
  "bitlen_nat (numeral (num.Bit0 n)) = Suc (bitlen_nat (numeral n))"
  "bitlen_nat (numeral (num.Bit1 n)) = Suc (bitlen_nat (numeral n))"
  "bitlen_nat 1 = 1" "bitlen_nat 0 = 0" "bitlen_nat (Suc 0) = 1"
  by (subst bitlen_nat.simps, simp add: numeral_Bit0_div_2 numeral_Bit1_div_2 bitlen_nat.simps)+

lemma floor_rat_numeral_div: "\<lfloor>numeral a / numeral b :: rat\<rfloor> = numeral a div numeral b"
  by (metis floor_divide_of_int_eq of_int_numeral)

lemma ceiling_rat_numeral_div:
  "\<lceil>numeral a / numeral b :: rat\<rceil> = - ((- numeral a) div numeral b)"
  by (metis ceiling_def floor_divide_of_int_eq minus_divide_left of_int_minus of_int_numeral)

lemmas fl64_eval = fl64_def ilog2_def pow2_def round_half_even_def bitlen_nat_numeral Let_def
  floor_rat_numeral_div ceiling_rat_numeral_div float_add_def float_mul_def float_truediv_def
  float_of_int_def float_sub_def

lemma correction_value: "fl64 (353 / 100) = 7948853342308925 / 2 ^ 51"
  by (simp add: fl64_eval)

lemma particles_261:
  "float_add (float_of_int (1 * 256))
     (float_truediv (float_mul (float_of_int (5 * 6250)) (fl64 (353 / 100))) 1000) = 366.3125"
  by (simp add: fl64_eval)

lemma uint_byte_and_255: "uint (b :: byte) AND 255 = uint b"
proof -
  have "uint b AND mask 8 = uint b"
    unfolding take_bit_eq_mask [symmetric]
    by (rule take_bit_int_eq_self) (use uint_lt2p [of b] in simp_all)
  then show ?thesis by (simp add: mask_eq_exp_minus_1)
qed

lemma drop_bit_u16: "drop_bit 8 (uint (a :: byte) + 256 * uint (b :: byte)) = uint b"
proof -
  have "0 \<le> uint a" "uint a < 256" using uint_lt2p [of a] by simp_all
  then show ?thesis by (simp add: drop_bit_eq_div)
qed

lemma and_255_u16: "(uint (a :: byte) + 256 * uint (b :: byte)) AND 255 = uint a"
proof -
  have a: "0 \<le> uint a" "uint a < 256" using uint_lt2p [of a] by simp_all
  have "(uint a + 256 * uint b) AND mask 8 = (uint a + 256 * uint b) mod 2 ^ 8"
    by (simp add: take_bit_eq_mask [symmetric] take_bit_eq_mod)
  also have "\<dots> = uint a" using a by simp
  finally show ?thesis by (simp add: mask_eq_exp_minus_1)
qed

text \<open>
  Claim C4. For every 20-byte DATA buffer the decoded particle count is
  \<open>msb*256 + (lsb*6250*3.53)/1000.0\<close> in floating point, the two products first, then
  the division, then the sum, with \<open>msb = pm2.5 >> 8\<close> and \<open>lsb = pm2.5 & 0xFF\<close>; it is a
  function of the buffer alone, and for pm2.5 = 0x0105 it is 366.3125.
\<close>

theorem particle_count_formula:
  "length payload = 20 \<Longrightarrow>
   \<exists>d. decode_data_frame payload = Inr (Some d)
     \<and> pm25 d = uint (payload ! 6) + 256 * uint (payload ! 7)
     \<and> particles d =
         float_add (float_of_int (drop_bit 8 (pm25 d) * 256))
           (float_truediv
              (float_mul (float_of_int ((pm25 d AND 255) * 6250)) (fl64 (353 / 100))) 1000)
     \<and> (pm25 d = 261 \<longrightarrow> particles d = 366.3125)"
proof -
  assume len: "length payload = 20"
  from decode_data_frame_20 [OF len] obtain d where
    d: "decode_data_frame payload = Inr (Some d)"
    and pm: "pm25 d = uint (payload ! 6) + 256 * uint (payload ! 7)"
    and pa: "particles d =
        float_add (float_of_int ((drop_bit 8 (pm25 d) AND 255) * PARTICLE_MULTIPLIER_BASE))
          (float_truediv
             (float_mul (float_of_int ((pm25 d AND 255) * PARTICLE_MULTIPLIER_LSB))
                PARTICLE_MULTIPLIER_CORRECTION)
             PARTICLE_DIVISOR)"
    by blast
  have msb: "drop_bit 8 (pm25 d) AND 255 = drop_bit 8 (pm25 d)"
    by (simp add: pm drop_bit_u16 uint_byte_and_255)
  have formula: "particles d =
         float_add (float_of_int (drop_bit 8 (pm25 d) * 256))
           (float_truediv
              (float_mul (float_of_int ((pm25 d AND 255) * 6250)) (fl64 (353 / 100))) 1000)"
    unfolding pa msb
    by (simp only: PARTICLE_MULTIPLIER_BASE_def PARTICLE_MULTIPLIER_LSB_def
        PARTICLE_MULTIPLIER_CORRECTION_def PARTICLE_DIVISOR_def)
  have example: "particles d = 366.3125" if "pm25 d = 261"
  proof -
    have "drop_bit 8 (261 :: int) = 1" "(261 :: int) AND 255 = 5"
      by (simp_all add: drop_bit_eq_div)
    then show ?thesis
      unfolding formula that using particles_261 by simp
  qed
  from d pm formula example show ?thesis by blast
qed

theorem particle_count_formula_witness:
  "\<exists>d. decode_data_frame [25, 6, 15, 10, 30, 45, 5, 1, 7, 0, 9, 2, 0, 0, 0, 0, 0, 0, 77, 1]
          = Inr (Some d)
     \<and> pm25 d = 261 \<and> particles d = 366.3125"
  using particle_count_formula
      [of "[25, 6, 15, 10, 30, 45, 5, 1, 7, 0, 9, 2, 0, 0, 0, 0, 0, 0, 77, 1]"]
  by auto


subsection \<open>The notification handler, channel by channel\<close>

lemma lower_uuid_values:
  "lower UUID_DATA = ''0000ffe1-0000-1000-8000-00805f9b34fb''"
  "lower UUID_STATUS = ''0000fff4-0000-1000-8000-00805f9b34fb''"
  "lower UUID_META = ''0000ffe4-0000-1000-8000-00805f9b34fb''"
  "lower UUID_SHORT = ''0000ffe3-0000-1000-8000-00805f9b34fb''"
  by (simp_all add: UUID_DATA_def UUID_STATUS_def UUID_META_def UUID_SHORT_def lower_def
      lower_char_def)

lemma lower_uuid_distinct [simp]:
  "lower UUID_STATUS \<noteq> lower UUID_DATA"
  "lower UUID_META \<noteq> lower UUID_DATA"
  "lower UUID_META \<noteq> lower UUID_STATUS"
  "lower UUID_SHORT \<noteq> lower UUID_DATA"
  "lower UUID_SHORT \<noteq> lower UUID_STATUS"
  "lower UUID_SHORT \<noteq> lower UUID_META"
  by (simp_all add: lower_uuid_values)

lemma decode_status_battery_Nil: "decode_status_battery [] = Inr None"
  by (simp add: decode_status_battery_def)

lemma decode_status_battery_Cons:
  "decode_status_battery (b0 # rest) =
     Inr (Some \<lparr>battery_raw = uint b0, battery_percent = uint b0\<rparr>)"
  by (simp add: decode_status_battery_def)

lemma decode_meta_time_mode_8:
  "length payload = 8 \<Longrightarrow>
   decode_meta_time_mode payload =
     Inr (Some \<lparr>meta_flag = uint (payload ! 0), meta_year = 2000 + uint (payload ! 1),
                meta_month = uint (payload ! 2), meta_day = uint (payload ! 3),
                meta_hour = uint (payload ! 4), meta_minute = uint (payload ! 5),
                meta_second = uint (payload ! 6), meta_mode = uint (payload ! 7)\<rparr>)"
  by (simp add: decode_meta_time_mode_def PACKET_SIZE_META_def)

lemma handler_meta:
  assumes "lower (uuid ch) = lower UUID_META"
  shows "notification_handler cfg clk ch b st =
     Inr (st\<lparr>last_data_time := Some (time_time clk)\<rparr>,
          [Log DEBUG (MsgNotification (handle ch) (uuid ch) b),
           (if b = [] then Log WARNING MsgEmptyMeta
            else if uint (b ! 0) = 1 then
              (if length b \<noteq> 8 then Log WARNING (MsgInvalidMetaLong 8 (length b))
               else Log INFO (MsgTimeConfirmed (2000 + uint (b ! 1)) (uint (b ! 2))
                      (uint (b ! 3)) (uint (b ! 4)) (uint (b ! 5)) (uint (b ! 6))
                      (uint (b ! 7))))
            else if uint (b ! 0) = 2 then
              (if length b \<noteq> 2 then Log WARNING (MsgInvalidMetaShort 2 (length b))
               else Log DEBUG (MsgMetaShort b))
            else Log WARNING (MsgUnknownMetaFlag (uint (b ! 0)) b))])"
proof (cases "b = []")
  case True
  then show ?thesis using assms by (simp add: notification_handler_def Let_def)
next
  case False
  then have pos: "0 < length b" by simp
  show ?thesis
  proof (cases "length b = 8")
    case True
    then show ?thesis
      using assms False pos
      by (simp add: notification_handler_def Let_def decode_meta_time_mode_8
          META_FLAG_TIME_CONFIRMATION_def META_FLAG_SHORT_RESPONSE_def
          PACKET_SIZE_META_LONG_def PACKET_SIZE_META_SHORT_def)
  next
    case False
    then show ?thesis
      using assms \<open>b \<noteq> []\<close> pos
      by (simp add: notification_handler_def Let_def
          META_FLAG_TIME_CONFIRMATION_def META_FLAG_SHORT_RESPONSE_def
          PACKET_SIZE_META_LONG_def PACKET_SIZE_META_SHORT_def)
  qed
qed

lemma handler_status:
  assumes "lower (uuid ch) = lower UUID_STATUS"
  shows "notification_handler cfg clk ch b st =
     (case b of
        [] \<Rightarrow> Inr (st\<lparr>last_data_time := Some (time_time clk)\<rparr>,
                    [Log DEBUG (MsgNotification (handle ch) (uuid ch) b),
                     Log WARNING MsgInvalidStatus])
      | b0 # rest \<Rightarrow>
          Inr (st\<lparr>last_data_time := Some (time_time clk), latest_battery := uint b0\<rparr>,
               [Log DEBUG (MsgNotification (handle ch) (uuid ch) b),
                Log INFO (MsgBatteryLevel (uint b0))]))"
  using assms
  by (cases b)
    (simp_all add: notification_handler_def Let_def decode_status_battery_Nil
      decode_status_battery_Cons)

lemma handler_short:
  assumes "lower (uuid ch) = lower UUID_SHORT"
  shows "notification_handler cfg clk ch b st =
     Inr (st\<lparr>last_data_time := Some (time_time clk)\<rparr>,
          [Log DEBUG (MsgNotification (handle ch) (uuid ch) b), Log DEBUG (MsgShort b)])"
  using assms by (simp add: notification_handler_def Let_def)

lemma handler_other:
  assumes "lower (uuid ch) \<noteq> lower UUID_DATA" "lower (uuid ch) \<noteq> lower UUID_STATUS"
    "lower (uuid ch) \<noteq> lower UUID_META" "lower (uuid ch) \<noteq> lower UUID_SHORT"
  shows "notification_handler cfg clk ch b st =
     Inr (st\<lparr>last_data_time := Some (time_time clk)\<rparr>,
          [Log DEBUG (MsgNotification (handle ch) (uuid ch) b)])"
  using assms by (simp add: notification_handler_def Let_def)

lemma handler_data_invalid:
  assumes "lower (uuid ch) = lower UUID_DATA" "length b \<noteq> 20"
  shows "notification_handler cfg clk ch b st =
     Inr (st\<lparr>last_data_time := Some (time_time clk)\<rparr>,
          [Log DEBUG (MsgNotification (handle ch) (uuid ch) b),
           Log WARNING (MsgInvalidData 20 (length b))])"
  using assms
  by (simp add: notification_handler_def Let_def decode_data_frame_not20 PACKET_SIZE_DATA_def)

lemma handler_data_decoded:
  assumes "lower (uuid ch) = lower UUID_DATA" "decode_data_frame b = Inr (Some d)"
  shows "notification_handler cfg clk ch b st =
     (if flag d = 0 \<and> \<not> include_history cfg then
        Inr (st\<lparr>last_data_time := Some (time_time clk)\<rparr>,
             [Log DEBUG (MsgNotification (handle ch) (uuid ch) b),
              Log DEBUG (MsgSkipHistorical (counter d))])
      else
        Inr (st\<lparr>last_data_time := Some (time_time clk)\<rparr>,
             Log DEBUG (MsgNotification (handle ch) (uuid ch) b)
             # (if output_format cfg = ''json''
                then output_json_data (st\<lparr>last_data_time := Some (time_time clk)\<rparr>) d
                else output_text_data d)
             @ (if mqtt_enabled cfg then
                  publish_mqtt cfg
                    \<lparr>q_timestamp = datetime_now clk, q_pm25 = pm25 d, q_pm1 = pm1 d,
                     q_pm10 = pm10 d, q_particles = py_round2 (particles d),
                     q_battery = latest_battery st, q_flag = flag_meaning d\<rparr>
                    (device_address cfg)
                else [])))"
  using assms by (simp add: notification_handler_def Let_def)


text \<open>
  Claim C10. The pure META decoder does not look at the flag byte: every 8-byte buffer
  decodes, whatever byte 0 is, to year = 2000 + byte 1 and the other fields verbatim.
  The flag policy lives in the notification handler only: there, an 8-byte META frame
  whose flag is not 0x01 is logged as a failure and never handed to the decoder.
\<close>

theorem decode_meta_time_mode_ignores_flag:
  assumes "length payload = 8"
  shows "decode_meta_time_mode payload =
       Inr (Some \<lparr>meta_flag = uint (payload ! 0), meta_year = 2000 + uint (payload ! 1),
                  meta_month = uint (payload ! 2), meta_day = uint (payload ! 3),
                  meta_hour = uint (payload ! 4), meta_minute = uint (payload ! 5),
                  meta_second = uint (payload ! 6), meta_mode = uint (payload ! 7)\<rparr>)
     \<and> (lower (uuid ch) = lower UUID_META \<and> uint (payload ! 0) \<noteq> 1 \<longrightarrow>
          notification_handler cfg clk ch payload st =
            Inr (st\<lparr>last_data_time := Some (time_time clk)\<rparr>,
                 [Log DEBUG (MsgNotification (handle ch) (uuid ch) payload),
                  Log WARNING
                    (if uint (payload ! 0) = 2 then MsgInvalidMetaShort 2 8
                     else MsgUnknownMetaFlag (uint (payload ! 0)) payload)]))"
proof (intro conjI impI)
  show "decode_meta_time_mode payload =
       Inr (Some \<lparr>meta_flag = uint (payload ! 0), meta_year = 2000 + uint (payload ! 1),
                  meta_month = uint (payload ! 2), meta_day = uint (payload ! 3),
                  meta_hour = uint (payload ! 4), meta_minute = uint (payload ! 5),
                  meta_second = uint (payload ! 6), meta_mode = uint (payload ! 7)\<rparr>)"
    using assms by (rule decode_meta_time_mode_8)
next
  assume h: "lower (uuid ch) = lower UUID_META \<and> uint (payload ! 0) \<noteq> 1"
  from assms have "payload \<noteq> []" by auto
  with h assms show "notification_handler cfg clk ch payload st =
            Inr (st\<lparr>last_data_time := Some (time_time clk)\<rparr>,
                 [Log DEBUG (MsgNotification (handle ch) (uuid ch) payload),
                  Log WARNING
                    (if uint (payload ! 0) = 2 then MsgInvalidMetaShort 2 8
                     else MsgUnknownMetaFlag (uint (payload ! 0)) payload)])"
    by (simp add: handler_meta)
qed

theorem decode_meta_time_mode_ignores_flag_witness:
  "decode_meta_time_mode [9, 25, 6, 15, 10, 30, 45, 2] =
       Inr (Some \<lparr>meta_flag = 9, meta_year = 2025, meta_month = 6, meta_day = 15,
                  meta_hour = 10, meta_minute = 30, meta_second = 45, meta_mode = 2\<rparr>)
   \<and> notification_handler Config (clock_at 1000) \<lparr>handle = 65, uuid = UUID_META\<rparr>
        [9, 25, 6, 15, 10, 30, 45, 2] SensorState =
        Inr (SensorState\<lparr>last_data_time := Some 1000\<rparr>,
             [Log DEBUG (MsgNotification 65 UUID_META [9, 25, 6, 15, 10, 30, 45, 2]),
              Log WARNING (MsgUnknownMetaFlag 9 [9, 25, 6, 15, 10, 30, 45, 2])])"
  using decode_meta_time_mode_ignores_flag
      [of "[9, 25, 6, 15, 10, 30, 45, 2]" "\<lparr>handle = 65, uuid = UUID_META\<rparr>" Config "clock_at 1000" SensorState]
  by (simp add: clock_at_def)

text \<open>
  Claim C7. On the META channel: an 8-byte frame with flag 0x01 is a device-time
  confirmation with year = 2000 + byte 1, month to second from bytes 2 to 6 and the work
  mode from byte 7 (so \<open>[1,25,6,15,10,30,45,2]\<close> is 2025-06-15 10:30:45, mode 2); a 2-byte
  frame with flag 0x02 is accepted and carries nothing; an empty frame, a frame with
  flag 0x01 or 0x02 of another length, and a frame with any other flag are decode
  failures, which the handler logs as warnings.
\<close>

theorem meta_frame_decoding:
  assumes "lower (uuid ch) = lower UUID_META"
  shows
    "(length b = 8 \<and> uint (b ! 0) = 1 \<longrightarrow>
        notification_handler cfg clk ch b st =
          Inr (st\<lparr>last_data_time := Some (time_time clk)\<rparr>,
               [Log DEBUG (MsgNotification (handle ch) (uuid ch) b),
                Log INFO (MsgTimeConfirmed (2000 + uint (b ! 1)) (uint (b ! 2)) (uint (b ! 3))
                  (uint (b ! 4)) (uint (b ! 5)) (uint (b ! 6)) (uint (b ! 7)))]))
   \<and> (length b = 2 \<and> uint (b ! 0) = 2 \<longrightarrow>
        notification_handler cfg clk ch b st =
          Inr (st\<lparr>last_data_time := Some (time_time clk)\<rparr>,
               [Log DEBUG (MsgNotification (handle ch) (uuid ch) b),
                Log DEBUG (MsgMetaShort b)]))
   \<and> (b = [] \<longrightarrow>
        notification_handler cfg clk ch b st =
          Inr (st\<lparr>last_data_time := Some (time_time clk)\<rparr>,
               [Log DEBUG (MsgNotification (handle ch) (uuid ch) b),
                Log WARNING MsgEmptyMeta]))
   \<and> (b \<noteq> [] \<and> uint (b ! 0) = 1 \<and> length b \<noteq> 8 \<longrightarrow>
        notification_handler cfg clk ch b st =
          Inr (st\<lparr>last_data_time := Some (time_time clk)\<rparr>,
               [Log DEBUG (MsgNotification (handle ch) (uuid ch) b),
                Log WARNING (MsgInvalidMetaLong 8 (length b))]))
   \<and> (b \<noteq> [] \<and> uint (b ! 0) = 2 \<and> length b \<noteq> 2 \<longrightarrow>
        notification_handler cfg clk ch b st =
          Inr (st\<lparr>last_data_time := Some (time_time clk)\<rparr>,
               [Log DEBUG (MsgNotification (handle ch) (uuid ch) b),
                Log WARNING (MsgInvalidMetaShort 2 (length b))]))
   \<and> (b \<noteq> [] \<and> uint (b ! 0) \<noteq> 1 \<and> uint (b ! 0) \<noteq> 2 \<longrightarrow>
        notification_handler cfg clk ch b st =
          Inr (st\<lparr>last_data_time := Some (time_time clk)\<rparr>,
               [Log DEBUG (MsgNotification (handle ch) (uuid ch) b),
                Log WARNING (MsgUnknownMetaFlag (uint (b ! 0)) b)]))"
  by (intro conjI impI) (auto simp: handler_meta [OF assms])

theorem meta_frame_decoding_witness:
  "notification_handler Config (clock_at 1000) \<lparr>handle = 65, uuid = UUID_META\<rparr> [1, 25, 6, 15, 10, 30, 45, 2] SensorState =
     Inr (SensorState\<lparr>last_data_time := Some 1000\<rparr>,
          [Log DEBUG (MsgNotification 65 UUID_META [1, 25, 6, 15, 10, 30, 45, 2]),
           Log INFO (MsgTimeConfirmed 2025 6 15 10 30 45 2)])
   \<and> notification_handler Config (clock_at 1000) \<lparr>handle = 65, uuid = UUID_META\<rparr> [2, 0] SensorState =
     Inr (SensorState\<lparr>last_data_time := Some 1000\<rparr>,
          [Log DEBUG (MsgNotification 65 UUID_META [2, 0]), Log DEBUG (MsgMetaShort [2, 0])])
   \<and> notification_handler Config (clock_at 1000) \<lparr>handle = 65, uuid = UUID_META\<rparr> [] SensorState =
     Inr (SensorState\<lparr>last_data_time := Some 1000\<rparr>,
          [Log DEBUG (MsgNotification 65 UUID_META []), Log WARNING MsgEmptyMeta])
   \<and> notification_handler Config (clock_at 1000) \<lparr>handle = 65, uuid = UUID_META\<rparr> [1, 25] SensorState =
     Inr (SensorState\<lparr>last_data_time := Some 1000\<rparr>,
          [Log DEBUG (MsgNotification 65 UUID_META [1, 25]),
           Log WARNING (MsgInvalidMetaLong 8 2)])
   \<and> notification_handler Config (clock_at 1000) \<lparr>handle = 65, uuid = UUID_META\<rparr> [2] SensorState =
     Inr (SensorState\<lparr>last_data_time := Some 1000\<rparr>,
          [Log DEBUG (MsgNotification 65 UUID_META [2]),
           Log WARNING (MsgInvalidMetaShort 2 1)])
   \<and> notification_handler Config (clock_at 1000) \<lparr>handle = 65, uuid = UUID_META\<rparr> [9] SensorState =
     Inr (SensorState\<lparr>last_data_time := Some 1000\<rparr>,
          [Log DEBUG (MsgNotification 65 UUID_META [9]),
           Log WARNING (MsgUnknownMetaFlag 9 [9])])"
  using
    meta_frame_decoding [of "\<lparr>handle = 65, uuid = UUID_META\<rparr>" "[1, 25, 6, 15, 10, 30, 45, 2]" Config "clock_at 1000" SensorState]
    meta_frame_decoding [of "\<lparr>handle = 65, uuid = UUID_META\<rparr>" "[2, 0]" Config "clock_at 1000" SensorState]
    meta_frame_decoding [of "\<lparr>handle = 65, uuid = UUID_META\<rparr>" "[]" Config "clock_at 1000" SensorState]
    meta_frame_decoding [of "\<lparr>handle = 65, uuid = UUID_META\<rparr>" "[1, 25]" Config "clock_at 1000" SensorState]
    meta_frame_decoding [of "\<lparr>handle = 65, uuid = UUID_META\<rparr>" "[2]" Config "clock_at 1000" SensorState]
    meta_frame_decoding [of "\<lparr>handle = 65, uuid = UUID_META\<rparr>" "[9]" Config "clock_at 1000" SensorState]
  by (simp add: clock_at_def)


lemmas lower_uuid_distinct_sym [simp] = lower_uuid_distinct [THEN not_sym]

text \<open>
  Claim C8. Whatever the channel (one of the four or none of them) and whatever the
  bytes, the handler returns normally, and in the state it returns the liveness clock is
  the time of this call. A frame that fails to decode changes nothing else and leaves
  only a warning in the log; a frame on an unknown channel leaves nothing.
\<close>

theorem notification_handler_never_raises:
  "\<exists>st' fx.
      notification_handler cfg clk ch b st =
        Inr (st', Log DEBUG (MsgNotification (handle ch) (uuid ch) b) # fx)
    \<and> last_data_time st' = Some (time_time clk)
    \<and> (lower (uuid ch) = lower UUID_DATA \<and> length b \<noteq> 20 \<longrightarrow>
          st' = st\<lparr>last_data_time := Some (time_time clk)\<rparr>
        \<and> fx = [Log WARNING (MsgInvalidData 20 (length b))])
    \<and> (lower (uuid ch) = lower UUID_STATUS \<and> b = [] \<longrightarrow>
          st' = st\<lparr>last_data_time := Some (time_time clk)\<rparr>
        \<and> fx = [Log WARNING MsgInvalidStatus])
    \<and> (lower (uuid ch) = lower UUID_META
        \<and> (b = [] \<or> uint (b ! 0) = 1 \<and> length b \<noteq> 8 \<or> uint (b ! 0) = 2 \<and> length b \<noteq> 2
             \<or> uint (b ! 0) \<noteq> 1 \<and> uint (b ! 0) \<noteq> 2) \<longrightarrow>
          st' = st\<lparr>last_data_time := Some (time_time clk)\<rparr>
        \<and> (\<exists>m. fx = [Log WARNING m]))
    \<and> (lower (uuid ch) \<noteq> lower UUID_DATA \<and> lower (uuid ch) \<noteq> lower UUID_STATUS
        \<and> lower (uuid ch) \<noteq> lower UUID_META \<and> lower (uuid ch) \<noteq> lower UUID_SHORT \<longrightarrow>
          st' = st\<lparr>last_data_time := Some (time_time clk)\<rparr> \<and> fx = [])"
proof -
  consider (data) "lower (uuid ch) = lower UUID_DATA"
    | (status) "lower (uuid ch) = lower UUID_STATUS"
    | (meta) "lower (uuid ch) = lower UUID_META"
    | (short) "lower (uuid ch) = lower UUID_SHORT"
    | (other) "lower (uuid ch) \<noteq> lower UUID_DATA" "lower (uuid ch) \<noteq> lower UUID_STATUS"
        "lower (uuid ch) \<noteq> lower UUID_META" "lower (uuid ch) \<noteq> lower UUID_SHORT"
    by blast
  then show ?thesis
  proof cases
    case data
    show ?thesis
    proof (cases "length b = 20")
      case True
      from decode_data_frame_20 [OF this] obtain d where
        "decode_data_frame b = Inr (Some d)" by blast
      from handler_data_decoded [OF data this, of cfg clk st] True data show ?thesis
        by (auto split: if_splits)
    next
      case False
      with handler_data_invalid [OF data False, of cfg clk st] data show ?thesis
        by simp
    qed
  next
    case status
    with handler_status [OF status, of cfg clk b st] show ?thesis
      by (cases b) simp_all
  next
    case meta
    with handler_meta [OF meta, of cfg clk b st] show ?thesis
      by auto
  next
    case short
    with handler_short [OF short, of cfg clk b st] show ?thesis
      by simp
  next
    case other
    with handler_other [OF other, of cfg clk b st] show ?thesis
      by simp
  qed
qed


theorem notification_handler_never_raises_witness:
  "notification_handler Config (clock_at 1000)
      \<lparr>handle = 12, uuid = ''00002A19-0000-1000-8000-00805F9B34FB''\<rparr> [255, 0] SensorState =
     Inr (SensorState\<lparr>last_data_time := Some 1000\<rparr>,
          [Log DEBUG (MsgNotification 12 ''00002A19-0000-1000-8000-00805F9B34FB'' [255, 0])])
   \<and> notification_handler Config (clock_at 1000) \<lparr>handle = 54, uuid = UUID_DATA\<rparr> [1, 2, 3]
        SensorState =
     Inr (SensorState\<lparr>last_data_time := Some 1000\<rparr>,
          [Log DEBUG (MsgNotification 54 UUID_DATA [1, 2, 3]),
           Log WARNING (MsgInvalidData 20 3)])
   \<and> notification_handler Config (clock_at 1000) \<lparr>handle = 46, uuid = UUID_STATUS\<rparr> []
        SensorState =
     Inr (SensorState\<lparr>last_data_time := Some 1000\<rparr>,
          [Log DEBUG (MsgNotification 46 UUID_STATUS []), Log WARNING MsgInvalidStatus])"
proof -
  have other: "lower ''00002A19-0000-1000-8000-00805F9B34FB'' \<noteq> lower UUID_DATA"
    "lower ''00002A19-0000-1000-8000-00805F9B34FB'' \<noteq> lower UUID_STATUS"
    "lower ''00002A19-0000-1000-8000-00805F9B34FB'' \<noteq> lower UUID_META"
    "lower ''00002A19-0000-1000-8000-00805F9B34FB'' \<noteq> lower UUID_SHORT"
    by (simp_all add: lower_uuid_values) (simp_all add: lower_def lower_char_def)
  show ?thesis
    using other
      notification_handler_never_raises [of Config "clock_at 1000"
        "\<lparr>handle = 12, uuid = ''00002A19-0000-1000-8000-00805F9B34FB''\<rparr>" "[255, 0]" SensorState]
      notification_handler_never_raises [of Config "clock_at 1000"
        "\<lparr>handle = 54, uuid = UUID_DATA\<rparr>" "[1, 2, 3]" SensorState]
      notification_handler_never_raises [of Config "clock_at 1000"
        "\<lparr>handle = 46, uuid = UUID_STATUS\<rparr>" "[]" SensorState]
    by (auto simp: clock_at_def)
qed

text \<open>
  What the handler does with a DATA frame that decodes, by the liveness flag in byte 19:
  flag 0 is dropped unless \<open>include_history\<close> is set, and every other flag value is
  emitted whatever the setting.
\<close>

lemma data_frame_filter:
  assumes "lower (uuid ch) = lower UUID_DATA" "length b = 20"
  shows "(uint (b ! 19) = 0 \<and> \<not> include_history cfg \<longrightarrow>
           notification_handler cfg clk ch b st =
             Inr (st\<lparr>last_data_time := Some (time_time clk)\<rparr>,
                  [Log DEBUG (MsgNotification (handle ch) (uuid ch) b),
                   Log DEBUG (MsgSkipHistorical (uint (b ! 18)))]))
       \<and> (uint (b ! 19) \<noteq> 0 \<or> include_history cfg \<longrightarrow>
           (\<exists>d. decode_data_frame b = Inr (Some d)
              \<and> notification_handler cfg clk ch b st =
                  Inr (st\<lparr>last_data_time := Some (time_time clk)\<rparr>,
                       Log DEBUG (MsgNotification (handle ch) (uuid ch) b)
                       # (if output_format cfg = ''json''
                          then output_json_data (st\<lparr>last_data_time := Some (time_time clk)\<rparr>) d
                          else output_text_data d)
                       @ (if mqtt_enabled cfg then
                            publish_mqtt cfg
                              \<lparr>q_timestamp = datetime_now clk, q_pm25 = pm25 d, q_pm1 = pm1 d,
                               q_pm10 = pm10 d, q_particles = py_round2 (particles d),
                               q_battery = latest_battery st, q_flag = flag_meaning d\<rparr>
                              (device_address cfg)
                          else []))))"
proof -
  from decode_data_frame_20 [OF assms(2)] obtain d where
    d: "decode_data_frame b = Inr (Some d)"
    and f: "flag d = uint (b ! 19)" and c: "counter d = uint (b ! 18)"
    by blast
  from handler_data_decoded [OF assms(1) d, of cfg clk st] d f c show ?thesis
    by auto
qed

text \<open>
  Claim C1, at the input where the code departs from it: a 20-byte DATA frame whose
  liveness byte is 2. The decoder labels the reading \<open>history\<close> (the flag is not 1), yet
  with \<open>include_history\<close> off the handler emits it: the filter tests \<open>flag == 0\<close>.
\<close>

theorem historical_flag_two_is_emitted:
  "\<not> include_history Config
   \<and> notification_handler Config (clock_at 1000) \<lparr>handle = 54, uuid = UUID_DATA\<rparr>
        [25, 6, 15, 10, 30, 45, 5, 1, 7, 0, 9, 2, 0, 0, 0, 0, 0, 0, 77, 2] SensorState =
       Inr (SensorState\<lparr>last_data_time := Some 1000\<rparr>,
            [Log DEBUG (MsgNotification 54 UUID_DATA
               [25, 6, 15, 10, 30, 45, 5, 1, 7, 0, 9, 2, 0, 0, 0, 0, 0, 0, 77, 2]),
             Log INFO (MsgReading 7 261 521 366.3125 ''history'')])"
proof -
  let ?b = "[25, 6, 15, 10, 30, 45, 5, 1, 7, 0, 9, 2, 0, 0, 0, 0, 0, 0, 77, 2] :: byte list"
  have len: "length ?b = 20" by simp
  from decode_data_frame_20 [OF len] obtain d where
    d: "decode_data_frame ?b = Inr (Some d)"
    and f: "flag d = 2" "flag_meaning d = ''history''"
    and v: "pm1 d = 7" "pm25 d = 261" "pm10 d = 521"
    and pa: "particles d =
        float_add (float_of_int ((drop_bit 8 (pm25 d) AND 255) * PARTICLE_MULTIPLIER_BASE))
          (float_truediv
             (float_mul (float_of_int ((pm25 d AND 255) * PARTICLE_MULTIPLIER_LSB))
                PARTICLE_MULTIPLIER_CORRECTION)
             PARTICLE_DIVISOR)"
    by auto
  have "drop_bit 8 (261 :: int) AND 255 = 1" "(261 :: int) AND 255 = 5"
    by (simp_all add: drop_bit_eq_div)
  then have p: "particles d = 366.3125"
    unfolding pa v PARTICLE_MULTIPLIER_BASE_def PARTICLE_MULTIPLIER_LSB_def
      PARTICLE_MULTIPLIER_CORRECTION_def PARTICLE_DIVISOR_def
    using particles_261 by simp
  have ch: "lower (uuid \<lparr>handle = 54, uuid = UUID_DATA\<rparr>) = lower UUID_DATA" by simp
  show ?thesis
    using handler_data_decoded [OF ch d, of Config "clock_at 1000" SensorState] f v p
    by (simp add: Config_def clock_at_def output_text_data_def)
qed


subsection \<open>The battery value across frames\<close>

lemma handler_total:
  "\<exists>st' fx. notification_handler cfg clk ch b st = Inr (st', fx)"
proof -
  consider (data) "lower (uuid ch) = lower UUID_DATA"
    | (status) "lower (uuid ch) = lower UUID_STATUS"
    | (meta) "lower (uuid ch) = lower UUID_META"
    | (short) "lower (uuid ch) = lower UUID_SHORT"
    | (other) "lower (uuid ch) \<noteq> lower UUID_DATA" "lower (uuid ch) \<noteq> lower UUID_STATUS"
        "lower (uuid ch) \<noteq> lower UUID_META" "lower (uuid ch) \<noteq> lower UUID_SHORT"
    by blast
  then show ?thesis
  proof cases
    case data
    show ?thesis
    proof (cases "length b = 20")
      case True
      from decode_data_frame_20 [OF this] obtain d where
        "decode_data_frame b = Inr (Some d)" by blast
      from handler_data_decoded [OF data this, of cfg clk st] show ?thesis
        by (simp split: if_splits)
    next
      case False
      with handler_data_invalid [OF data False, of cfg clk st] show ?thesis by simp
    qed
  next
    case status
    with handler_status [OF status, of cfg clk b st] show ?thesis by (cases b) simp_all
  next
    case meta
    with handler_meta [OF meta, of cfg clk b st] show ?thesis by simp
  next
    case short
    with handler_short [OF short, of cfg clk b st] show ?thesis by simp
  next
    case other
    with handler_other [OF other, of cfg clk b st] show ?thesis by simp
  qed
qed

lemma reading_battery_simps [simp]:
  "reading_battery (Log l m) = None"
  "reading_battery (PrintReading r) = Some (j_battery r)"
  "reading_battery (Publish t q) = Some (q_battery q)"
  by (simp_all add: reading_battery_def)

lemma status_byte_notification [simp]:
  "status_byte (Log l (MsgNotification h u b)) =
     (if lower u = lower UUID_STATUS \<and> b \<noteq> [] then Some (uint (hd b)) else None)"
  by (simp add: status_byte_def)

lemma status_byte_other [simp]:
  "status_byte (PrintReading r) = None"
  "status_byte (Publish t q) = None"
  "status_byte (Log l (MsgReading a1 a2 a3 a4 a5)) = None"
  "status_byte (Log l (MsgPublished s)) = None"
  "status_byte (Log l (MsgInvalidData n1 n2)) = None"
  "status_byte (Log l (MsgSkipHistorical i)) = None"
  "status_byte (Log l MsgInvalidStatus) = None"
  "status_byte (Log l (MsgBatteryLevel i)) = None"
  "status_byte (Log l MsgEmptyMeta) = None"
  "status_byte (Log l (MsgInvalidMetaLong n1 n2)) = None"
  "status_byte (Log l MsgMetaDecodeFailed) = None"
  "status_byte (Log l (MsgTimeConfirmed i1 i2 i3 i4 i5 i6 i7)) = None"
  "status_byte (Log l (MsgInvalidMetaShort n1 n2)) = None"
  "status_byte (Log l (MsgMetaShort b)) = None"
  "status_byte (Log l (MsgUnknownMetaFlag i b)) = None"
  "status_byte (Log l (MsgShort b)) = None"
  by (simp_all add: status_byte_def)

lemma handler_trace:
  assumes "notification_handler cfg clk ch b st = Inr (st', fx)"
  shows "readings_carry (latest_battery st) fx
       \<and> latest_battery st' = battery_after (latest_battery st) fx"
proof -
  consider (data) "lower (uuid ch) = lower UUID_DATA"
    | (status) "lower (uuid ch) = lower UUID_STATUS"
    | (meta) "lower (uuid ch) = lower UUID_META"
    | (short) "lower (uuid ch) = lower UUID_SHORT"
    | (other) "lower (uuid ch) \<noteq> lower UUID_DATA" "lower (uuid ch) \<noteq> lower UUID_STATUS"
        "lower (uuid ch) \<noteq> lower UUID_META" "lower (uuid ch) \<noteq> lower UUID_SHORT"
    by blast
  then show ?thesis
  proof cases
    case data
    show ?thesis
    proof (cases "length b = 20")
      case True
      from decode_data_frame_20 [OF this] obtain d where
        "decode_data_frame b = Inr (Some d)" by blast
      from handler_data_decoded [OF data this, of cfg clk st] assms data show ?thesis
        by (auto simp: output_json_data_def output_text_data_def publish_mqtt_def Let_def
            split: if_splits)
    next
      case False
      with handler_data_invalid [OF data False, of cfg clk st] assms data show ?thesis
        by auto
    qed
  next
    case status
    with handler_status [OF status, of cfg clk b st] assms show ?thesis
      by (cases b) auto
  next
    case meta
    with handler_meta [OF meta, of cfg clk b st] assms show ?thesis
      by (auto split: if_splits)
  next
    case short
    with handler_short [OF short, of cfg clk b st] assms show ?thesis by auto
  next
    case other
    with handler_other [OF other, of cfg clk b st] assms show ?thesis by auto
  qed
qed

lemma handler_keeps_battery:
  assumes "lower (uuid ch) = lower UUID_STATUS \<longrightarrow> b = []"
    and "notification_handler cfg clk ch b st = Inr (st', fx)"
  shows "latest_battery st' = latest_battery st
       \<and> (\<forall>x \<in> set fx. \<forall>v. reading_battery x = Some v \<longrightarrow> v = latest_battery st)"
proof -
  consider (data) "lower (uuid ch) = lower UUID_DATA"
    | (status) "lower (uuid ch) = lower UUID_STATUS"
    | (meta) "lower (uuid ch) = lower UUID_META"
    | (short) "lower (uuid ch) = lower UUID_SHORT"
    | (other) "lower (uuid ch) \<noteq> lower UUID_DATA" "lower (uuid ch) \<noteq> lower UUID_STATUS"
        "lower (uuid ch) \<noteq> lower UUID_META" "lower (uuid ch) \<noteq> lower UUID_SHORT"
    by blast
  then show ?thesis
  proof cases
    case data
    show ?thesis
    proof (cases "length b = 20")
      case True
      from decode_data_frame_20 [OF this] obtain d where
        "decode_data_frame b = Inr (Some d)" by blast
      from handler_data_decoded [OF data this, of cfg clk st] assms(2) show ?thesis
        by (auto simp: output_json_data_def output_text_data_def publish_mqtt_def Let_def
            split: if_splits)
    next
      case False
      with handler_data_invalid [OF data False, of cfg clk st] assms(2) show ?thesis
        by auto
    qed
  next
    case status
    with assms(1) have "b = []" by simp
    with handler_status [OF status, of cfg clk b st] assms(2) show ?thesis
      by auto
  next
    case meta
    with handler_meta [OF meta, of cfg clk b st] assms(2) show ?thesis
      by (auto split: if_splits)
  next
    case short
    with handler_short [OF short, of cfg clk b st] assms(2) show ?thesis by auto
  next
    case other
    with handler_other [OF other, of cfg clk b st] assms(2) show ?thesis by auto
  qed
qed

lemma deliver_keeps_battery:
  assumes "\<forall>n \<in> set ns. lower (uuid (n_char n)) = lower UUID_STATUS \<longrightarrow> n_data n = []"
    and "deliver cfg ns st = (st', fx)"
  shows "latest_battery st' = latest_battery st
       \<and> (\<forall>x \<in> set fx. \<forall>v. reading_battery x = Some v \<longrightarrow> v = latest_battery st)"
  using assms
proof (induction ns arbitrary: st st' fx)
  case Nil
  then show ?case by simp
next
  case (Cons n ns)
  from handler_total [of cfg "n_clock n" "n_char n" "n_data n" st] obtain st1 fx1 where
    h: "notification_handler cfg (n_clock n) (n_char n) (n_data n) st = Inr (st1, fx1)"
    by blast
  obtain st2 fx2 where d: "deliver cfg ns st1 = (st2, fx2)"
    by (cases "deliver cfg ns st1")
  from Cons.prems(2) h d have eq: "st' = st2" "fx = fx1 @ fx2" by simp_all
  from Cons.prems(1) have here: "lower (uuid (n_char n)) = lower UUID_STATUS \<longrightarrow> n_data n = []"
    and rest: "\<forall>n \<in> set ns. lower (uuid (n_char n)) = lower UUID_STATUS \<longrightarrow> n_data n = []"
    by simp_all
  from handler_keeps_battery [OF here h] have
    k1: "latest_battery st1 = latest_battery st"
    and r1: "\<forall>x \<in> set fx1. \<forall>v. reading_battery x = Some v \<longrightarrow> v = latest_battery st"
    by simp_all
  from Cons.IH [OF rest d] k1 have
    k2: "latest_battery st2 = latest_battery st"
    and r2: "\<forall>x \<in> set fx2. \<forall>v. reading_battery x = Some v \<longrightarrow> v = latest_battery st"
    by simp_all
  from k2 r1 r2 eq show ?case by auto
qed

lemma handler_emits_battery:
  assumes "lower (uuid ch) = lower UUID_DATA" "length b = 20"
    and "uint (b ! 19) \<noteq> 0 \<or> include_history cfg"
  shows "\<exists>st' fx. notification_handler cfg clk ch b st = Inr (st', fx)
     \<and> latest_battery st' = latest_battery st
     \<and> ((\<exists>r. PrintReading r \<in> set fx \<and> j_battery r = latest_battery st)
          \<longleftrightarrow> output_format cfg = ''json'')
     \<and> ((\<exists>t q. Publish t q \<in> set fx \<and> q_battery q = latest_battery st)
          \<longleftrightarrow> mqtt_enabled cfg \<and> mqtt_client cfg)"
proof -
  from decode_data_frame_20 [OF assms(2)] obtain d where
    d: "decode_data_frame b = Inr (Some d)" and f: "flag d = uint (b ! 19)"
    by blast
  from handler_data_decoded [OF assms(1) d, of cfg clk st] f assms(3) show ?thesis
    by (auto simp: output_json_data_def output_text_data_def publish_mqtt_def Let_def)
qed

text \<open>
  Claim C9, as the code has it. A STATUS frame of length at least 1 decodes to
  battery = byte 0, whatever follows and whatever the value (no clamping); an empty one
  is a decode failure. The handler stores the value, and it stays stored while no later
  non-empty STATUS frame is handled. The next DATA frame that yields a reading (20 bytes,
  not dropped by the history filter) shows it in the battery field of the JSON line,
  which is printed exactly when the output format is \<open>json\<close>, and in the battery field
  of the MQTT state message, which is published exactly when MQTT is enabled and a
  client exists; so does every JSON line or MQTT state message emitted in between.
\<close>

theorem status_battery_visible_until_superseded:
  assumes "lower (uuid ch) = lower UUID_STATUS"
    and "\<forall>n \<in> set ns. lower (uuid (n_char n)) = lower UUID_STATUS \<longrightarrow> n_data n = []"
    and "lower (uuid dch) = lower UUID_DATA" "length frame = 20"
    and "uint (frame ! 19) \<noteq> 0 \<or> include_history cfg"
  shows "decode_status_battery [] = Inr None
     \<and> decode_status_battery (b0 # rest) =
         Inr (Some \<lparr>battery_raw = uint b0, battery_percent = uint b0\<rparr>)
     \<and> (\<exists>st1 fx1 st2 fx2 st3 fx3.
           notification_handler cfg clk ch (b0 # rest) st = Inr (st1, fx1)
         \<and> latest_battery st1 = uint b0
         \<and> deliver cfg ns st1 = (st2, fx2)
         \<and> latest_battery st2 = uint b0
         \<and> (\<forall>x \<in> set fx2. \<forall>v. reading_battery x = Some v \<longrightarrow> v = uint b0)
         \<and> notification_handler cfg dclk dch frame st2 = Inr (st3, fx3)
         \<and> latest_battery st3 = uint b0
         \<and> ((\<exists>r. PrintReading r \<in> set fx3 \<and> j_battery r = uint b0)
              \<longleftrightarrow> output_format cfg = ''json'')
         \<and> ((\<exists>t q. Publish t q \<in> set fx3 \<and> q_battery q = uint b0)
              \<longleftrightarrow> mqtt_enabled cfg \<and> mqtt_client cfg))"
proof -
  let ?st1 = "st\<lparr>last_data_time := Some (time_time clk), latest_battery := uint b0\<rparr>"
  have h: "notification_handler cfg clk ch (b0 # rest) st =
     Inr (?st1, [Log DEBUG (MsgNotification (handle ch) (uuid ch) (b0 # rest)),
                 Log INFO (MsgBatteryLevel (uint b0))])"
    using handler_status [OF assms(1), of cfg clk "b0 # rest" st] by simp
  obtain st2 fx2 where d: "deliver cfg ns ?st1 = (st2, fx2)"
    by (cases "deliver cfg ns ?st1")
  from deliver_keeps_battery [OF assms(2) d] have k:
    "latest_battery st2 = uint b0"
    "\<forall>x \<in> set fx2. \<forall>v. reading_battery x = Some v \<longrightarrow> v = uint b0"
    by simp_all
  from handler_emits_battery [OF assms(3,4,5), of dclk st2] k(1) obtain st3 fx3 where
    e: "notification_handler cfg dclk dch frame st2 = Inr (st3, fx3)"
      "latest_battery st3 = uint b0"
      "(\<exists>r. PrintReading r \<in> set fx3 \<and> j_battery r = uint b0)
          \<longleftrightarrow> output_format cfg = ''json''"
      "(\<exists>t q. Publish t q \<in> set fx3 \<and> q_battery q = uint b0)
          \<longleftrightarrow> mqtt_enabled cfg \<and> mqtt_client cfg"
    by auto
  have "\<exists>st1 fx1 st2 fx2 st3 fx3.
           notification_handler cfg clk ch (b0 # rest) st = Inr (st1, fx1)
         \<and> latest_battery st1 = uint b0
         \<and> deliver cfg ns st1 = (st2, fx2)
         \<and> latest_battery st2 = uint b0
         \<and> (\<forall>x \<in> set fx2. \<forall>v. reading_battery x = Some v \<longrightarrow> v = uint b0)
         \<and> notification_handler cfg dclk dch frame st2 = Inr (st3, fx3)
         \<and> latest_battery st3 = uint b0
         \<and> ((\<exists>r. PrintReading r \<in> set fx3 \<and> j_battery r = uint b0)
              \<longleftrightarrow> output_format cfg = ''json'')
         \<and> ((\<exists>t q. Publish t q \<in> set fx3 \<and> q_battery q = uint b0)
              \<longleftrightarrow> mqtt_enabled cfg \<and> mqtt_client cfg)"
    apply (rule exI [of _ ?st1])
    apply (rule exI [of _ "[Log DEBUG (MsgNotification (handle ch) (uuid ch) (b0 # rest)),
                 Log INFO (MsgBatteryLevel (uint b0))]"])
    apply (rule exI [of _ st2])
    apply (rule exI [of _ fx2])
    apply (rule exI [of _ st3])
    apply (rule exI [of _ fx3])
    using h d k e apply simp
    done
  then show ?thesis
    by (simp only: decode_status_battery_Nil decode_status_battery_Cons simp_thms)
qed

theorem status_battery_visible_until_superseded_witness:
  "decode_status_battery [42, 7] = Inr (Some \<lparr>battery_raw = 42, battery_percent = 42\<rparr>)
   \<and> decode_status_battery [200] = Inr (Some \<lparr>battery_raw = 200, battery_percent = 200\<rparr>)
   \<and> (\<exists>st1 fx1 st2 fx2 st3 fx3.
         notification_handler
           (Config\<lparr>output_format := ''json'', mqtt_enabled := True, mqtt_client := True\<rparr>)
           (clock_at 1000) \<lparr>handle = 46, uuid = UUID_STATUS\<rparr> [42, 7] SensorState
           = Inr (st1, fx1)
       \<and> latest_battery st1 = 42
       \<and> deliver
           (Config\<lparr>output_format := ''json'', mqtt_enabled := True, mqtt_client := True\<rparr>)
           [\<lparr>n_clock = clock_at 1001, n_char = \<lparr>handle = 65, uuid = UUID_META\<rparr>,
              n_data = [2, 0]\<rparr>,
            \<lparr>n_clock = clock_at 1002, n_char = \<lparr>handle = 46, uuid = UUID_STATUS\<rparr>,
              n_data = []\<rparr>]
           st1 = (st2, fx2)
       \<and> latest_battery st2 = 42
       \<and> notification_handler
           (Config\<lparr>output_format := ''json'', mqtt_enabled := True, mqtt_client := True\<rparr>)
           (clock_at 1003) \<lparr>handle = 54, uuid = UUID_DATA\<rparr> live_frame st2
           = Inr (st3, fx3)
       \<and> latest_battery st3 = 42
       \<and> (\<exists>r. PrintReading r \<in> set fx3 \<and> j_battery r = 42)
       \<and> (\<exists>t q. Publish t q \<in> set fx3 \<and> q_battery q = 42))"
proof -
  let ?cfg = "Config\<lparr>output_format := ''json'', mqtt_enabled := True, mqtt_client := True\<rparr>"
  let ?ch = "\<lparr>handle = 46, uuid = UUID_STATUS\<rparr>"
  let ?dch = "\<lparr>handle = 54, uuid = UUID_DATA\<rparr>"
  let ?n1 = "\<lparr>n_clock = clock_at 1001, n_char = \<lparr>handle = 65, uuid = UUID_META\<rparr>,
              n_data = [2, 0]\<rparr>"
  let ?n2 = "\<lparr>n_clock = clock_at 1002, n_char = \<lparr>handle = 46, uuid = UUID_STATUS\<rparr>,
              n_data = []\<rparr>"
  have hyp1: "lower (uuid ?ch) = lower UUID_STATUS" by simp
  have hyp2: "\<forall>n \<in> set [?n1, ?n2]. lower (uuid (n_char n)) = lower UUID_STATUS \<longrightarrow> n_data n = []"
    by simp
  have hyp3: "lower (uuid ?dch) = lower UUID_DATA" by simp
  have hyp4: "length live_frame = 20" by (simp add: live_frame_def)
  have hyp5: "uint (live_frame ! 19) \<noteq> 0 \<or> include_history ?cfg" by (simp add: live_frame_def)
  have cfg: "output_format ?cfg = ''json''" "mqtt_enabled ?cfg \<and> mqtt_client ?cfg"
    by (simp_all add: Config_def)
  from status_battery_visible_until_superseded [OF hyp1 hyp2 hyp3 hyp4 hyp5,
      of 42 "[7]" "clock_at 1000" SensorState "clock_at 1003"]
  obtain st1 fx1 st2 fx2 st3 fx3 where
    dec: "decode_status_battery [42, 7] =
            Inr (Some \<lparr>battery_raw = uint (42 :: byte), battery_percent = uint (42 :: byte)\<rparr>)"
    and h: "notification_handler ?cfg (clock_at 1000) ?ch [42, 7] SensorState = Inr (st1, fx1)"
    and b1: "latest_battery st1 = uint (42 :: byte)"
    and d: "deliver ?cfg [?n1, ?n2] st1 = (st2, fx2)"
    and b2: "latest_battery st2 = uint (42 :: byte)"
    and e: "notification_handler ?cfg (clock_at 1003) ?dch live_frame st2 = Inr (st3, fx3)"
    and b3: "latest_battery st3 = uint (42 :: byte)"
    and j: "(\<exists>r. PrintReading r \<in> set fx3 \<and> j_battery r = uint (42 :: byte))
              \<longleftrightarrow> output_format ?cfg = ''json''"
    and q: "(\<exists>t q. Publish t q \<in> set fx3 \<and> q_battery q = uint (42 :: byte))
              \<longleftrightarrow> mqtt_enabled ?cfg \<and> mqtt_client ?cfg"
    by (elim conjE exE) (rule that, assumption+)
  have u: "uint (42 :: byte) = 42" by simp
  from j cfg(1) have j': "\<exists>r. PrintReading r \<in> set fx3 \<and> j_battery r = 42"
    by (simp only: u simp_thms)
  from q cfg(2) have q': "\<exists>t q. Publish t q \<in> set fx3 \<and> q_battery q = 42"
    by (simp only: u simp_thms)
  show ?thesis
    apply (rule conjI)
     apply (use dec in \<open>simp only: u\<close>)
    apply (rule conjI)
     apply (simp add: decode_status_battery_Cons)
    apply (rule exI [of _ st1], rule exI [of _ fx1], rule exI [of _ st2], rule exI [of _ fx2],
        rule exI [of _ st3], rule exI [of _ fx3])
    apply (intro conjI)
           apply (fact h)
          apply (use b1 in \<open>simp only: u\<close>)
         apply (fact d)
        apply (use b2 in \<open>simp only: u\<close>)
       apply (fact e)
      apply (use b3 in \<open>simp only: u\<close>)
     apply (fact j')
    apply (fact q')
    done
qed


subsection \<open>The battery value along a whole run\<close>

lemma battery_after_append:
  "battery_after d (fx1 @ fx2) = battery_after (battery_after d fx1) fx2"
  by (induction fx1 arbitrary: d) simp_all

lemma readings_carry_append:
  "readings_carry d (fx1 @ fx2) =
     (readings_carry d fx1 \<and> readings_carry (battery_after d fx1) fx2)"
  by (induction fx1 arbitrary: d) auto

lemma tracks_append:
  "tracks st st1 fx1 \<Longrightarrow> tracks st1 st2 fx2 \<Longrightarrow> tracks st st2 (fx1 @ fx2)"
  by (simp add: tracks_def battery_after_append readings_carry_append)

lemma tracks_quiet:
  assumes "\<forall>x \<in> set fx. reading_battery x = None \<and> status_byte x = None"
    and "latest_battery st' = latest_battery st"
  shows "tracks st st' fx"
proof -
  have "readings_carry d fx \<and> battery_after d fx = d" for d
    using assms(1) by (induction fx) simp_all
  with assms(2) show ?thesis by (simp add: tracks_def)
qed

lemma tracks_Cons_quiet:
  "reading_battery x = None \<Longrightarrow> status_byte x = None \<Longrightarrow> tracks st st' fx
     \<Longrightarrow> tracks st st' (x # fx)"
  by (simp add: tracks_def)

lemma handler_tracks:
  "notification_handler cfg clk ch b st = Inr (st', fx) \<Longrightarrow> tracks st st' fx"
  using handler_trace by (simp add: tracks_def)

lemma deliver_tracks: "deliver cfg ns st = (st', fx) \<Longrightarrow> tracks st st' fx"
proof (induction ns arbitrary: st st' fx)
  case Nil
  then show ?case by (simp add: tracks_def)
next
  case (Cons n ns)
  from handler_total [of cfg "n_clock n" "n_char n" "n_data n" st] obtain st1 fx1 where
    h: "notification_handler cfg (n_clock n) (n_char n) (n_data n) st = Inr (st1, fx1)"
    by blast
  obtain st2 fx2 where d: "deliver cfg ns st1 = (st2, fx2)"
    by (cases "deliver cfg ns st1")
  from Cons.prems h d have eq: "st' = st2" "fx = fx1 @ fx2" by simp_all
  from tracks_append [OF handler_tracks [OF h] Cons.IH [OF d]] eq show ?case by simp
qed

lemma await_tracks:
  assumes "reading_battery operation = None" "status_byte operation = None"
    and "await cfg env operation st = (r, st', fx)"
  shows "tracks st st' fx"
proof -
  obtain st1 fx1 where d: "deliver cfg (arrivals env) st = (st1, fx1)"
    by (cases "deliver cfg (arrivals env) st")
  with assms(3) have "st' = st1" "fx = operation # fx1" by (simp_all add: await_def)
  with tracks_Cons_quiet [OF assms(1,2) deliver_tracks [OF d]] show ?thesis by simp
qed

lemma asyncio_sleep_tracks:
  assumes "asyncio_sleep cfg env secs st = (r, st', fx)"
  shows "tracks st st' fx"
proof -
  obtain st1 fx1 where d: "deliver cfg (woken env) st = (st1, fx1)"
    by (cases "deliver cfg (woken env) st")
  with assms have "st' = st1" "fx = Sleep secs # fx1" by (simp_all add: asyncio_sleep_def)
  with tracks_Cons_quiet [OF _ _ deliver_tracks [OF d], of "Sleep secs"] show ?thesis
    by (simp add: reading_battery_def status_byte_def)
qed

lemma chain_tracks:
  assumes "\<forall>f \<in> set fs. \<forall>st r st' fx. f st = (r, st', fx) \<longrightarrow> tracks st st' fx"
    and "chain fs st = (r, st', fx)"
  shows "tracks st st' fx"
  using assms
proof (induction fs arbitrary: st r st' fx)
  case Nil
  then show ?case by (simp add: tracks_def)
next
  case (Cons f fs)
  obtain r1 st1 fx1 where f: "f st = (r1, st1, fx1)" by (cases "f st")
  with Cons.prems(1) have t1: "tracks st st1 fx1" by simp
  show ?case
  proof (cases r1)
    case (Some e)
    with f Cons.prems(2) t1 show ?thesis by simp
  next
    case None
    obtain r2 st2 fx2 where c: "chain fs st1 = (r2, st2, fx2)" by (cases "chain fs st1")
    with f None Cons.prems(2) have eq: "st' = st2" "fx = fx1 @ fx2" by simp_all
    from Cons.prems(1) have "\<forall>f \<in> set fs. \<forall>st r st' fx. f st = (r, st', fx) \<longrightarrow> tracks st st' fx"
      by simp
    from tracks_append [OF t1 Cons.IH [OF this c]] eq show ?thesis by simp
  qed
qed

lemma emit_step:
  assumes "\<forall>x \<in> set fx0. reading_battery x = None \<and> status_byte x = None"
  shows "\<forall>st r st' fx. emit fx0 st = (r, st', fx) \<longrightarrow> tracks st st' fx"
  using tracks_quiet [OF assms] by (auto simp: emit_def)

lemma await_step:
  assumes "reading_battery operation = None" "status_byte operation = None"
  shows "\<forall>st r st' fx. await cfg env operation st = (r, st', fx) \<longrightarrow> tracks st st' fx"
  using await_tracks [OF assms] by blast

lemma initialize_device_tracks:
  "\<forall>st r st' fx. initialize_device cfg hs n wall st = (r, st', fx) \<longrightarrow> tracks st st' fx"
  unfolding initialize_device_def Let_def
  apply (intro allI impI)
  apply (erule chain_tracks [rotated])
  apply (simp only: list.set ball_simps insert_iff)
  apply (intro conjI ballI emit_step await_step)
  apply (auto simp: reading_battery_def status_byte_def)
  done


lemma listen_tracks:
  "listen cfg ps st = Some (r, st', fx) \<Longrightarrow> tracks st st' fx"
proof (induction ps arbitrary: st r st' fx)
  case Nil
  then show ?case by simp
next
  case (Cons p ps)
  show ?case
  proof (cases "poll_fatal p")
    case True
    with Cons.prems show ?thesis
      by (auto intro!: tracks_quiet simp: reading_battery_def status_byte_def)
  next
    case False
    let ?timeout = "case last_data_time st of
                None \<Rightarrow> None
              | Some t \<Rightarrow>
                  let time_since_last_data = float_sub (poll_time p) t
                  in if time_since_last_data > of_int (response_timeout cfg)
                     then Some time_since_last_data else None"
    show ?thesis
    proof (cases ?timeout)
      case (Some d)
      with False Cons.prems show ?thesis
        by (auto intro!: tracks_quiet simp: reading_battery_def status_byte_def)
    next
      case None
      obtain r1 st1 fx1 where s: "asyncio_sleep cfg (poll_sleep p) 1 st = (r1, st1, fx1)"
        by (cases "asyncio_sleep cfg (poll_sleep p) 1 st")
      note t1 = asyncio_sleep_tracks [OF s]
      show ?thesis
      proof (cases r1)
        case (Some e)
        with False None s Cons.prems t1 show ?thesis by simp
      next
        case none: None
        with False None s Cons.prems obtain r2 st2 fx2 where
          l: "listen cfg ps st1 = Some (r2, st2, fx2)" and eq: "st' = st2" "fx = fx1 @ fx2"
          by (auto split: option.splits)
        from tracks_append [OF t1 Cons.IH [OF l]] eq show ?thesis by simp
      qed
    qed
  qed
qed

lemma session_body_tracks:
  assumes "session_body cfg env st = Some (r, st', fx)"
  shows "tracks st st' fx"
proof (cases "is_connected env")
  case False
  with assms show ?thesis
    by (auto intro!: tracks_quiet simp: session_body_def reading_battery_def status_byte_def)
next
  case True
  let ?steps =
    "[emit [Log INFO (Note ''Connected successfully''),
            Log DEBUG (Note ''Performing service discovery...''),
            Log DEBUG (Note ''Service discovery completed'')],
      initialize_device cfg (handshake_env env) (rand_num env) (sync_now env),
      emit (if mqtt_auto_discovery cfg
            then publish_home_assistant_discovery cfg (device_address cfg) else []),
      emit [Log INFO (Note ''Listening for sensor data'')]]"
  obtain r1 st1 fx1 where c: "chain ?steps st = (r1, st1, fx1)" by (cases "chain ?steps st")
  have "\<forall>f \<in> set ?steps. \<forall>st r st' fx. f st = (r, st', fx) \<longrightarrow> tracks st st' fx"
    apply (simp only: list.set ball_simps insert_iff)
    apply (intro conjI ballI emit_step initialize_device_tracks)
    apply (auto simp: reading_battery_def status_byte_def publish_home_assistant_discovery_def
        split: if_splits)
    done
  from chain_tracks [OF this c] have t1: "tracks st st1 fx1" .
  show ?thesis
  proof (cases r1)
    case (Some e)
    with True c assms t1 show ?thesis by (simp add: session_body_def)
  next
    case None
    with True c assms obtain r2 st2 fx2 where
      l: "listen cfg (polls env) (st1\<lparr>last_data_time := Some (listen_start env)\<rparr>)
            = Some (r2, st2, fx2)"
      and eq: "st' = st2" "fx = fx1 @ fx2"
      by (auto simp: session_body_def split: option.splits)
    have "tracks st (st1\<lparr>last_data_time := Some (listen_start env)\<rparr>) fx1"
      using t1 by (simp add: tracks_def)
    from tracks_append [OF this listen_tracks [OF l]] eq show ?thesis by simp
  qed
qed

lemma except_log_quiet:
  "\<forall>x \<in> set (except_log e). reading_battery x = None \<and> status_byte x = None"
  by (cases e) (simp_all add: reading_battery_def status_byte_def)

lemma monitor_device_connection_tracks:
  assumes "monitor_device_connection cfg env st = Some (r, st', fx)"
  shows "tracks st st' fx"
proof (cases "fatal_at_start env")
  case True
  with assms show ?thesis
    by (auto intro!: tracks_quiet
        simp: monitor_device_connection_def reading_battery_def status_byte_def)
next
  case False
  have q0: "tracks s s [Log INFO (Note ''Connecting'')]" for s
    by (rule tracks_quiet) (simp_all add: reading_battery_def status_byte_def)
  obtain r1 st1 fx1 where
    a: "await cfg (connect_env env) (Connect (device_address cfg)) st = (r1, st1, fx1)"
    by (cases "await cfg (connect_env env) (Connect (device_address cfg)) st")
  have t1: "tracks st st1 fx1"
    by (rule await_tracks [OF _ _ a]) (simp_all add: reading_battery_def status_byte_def)
  show ?thesis
  proof (cases r1)
    case (Some e)
    with False a assms have eq: "st' = st1"
      "fx = [Log INFO (Note ''Connecting'')] @ fx1 @ except_log e"
      by (simp_all add: monitor_device_connection_def Let_def)
    have "tracks st1 st1 (except_log e)"
      by (rule tracks_quiet [OF except_log_quiet]) simp
    from tracks_append [OF q0 tracks_append [OF t1 this]] eq show ?thesis by simp
  next
    case None
    with False a assms obtain r2 st2 fx2 r3 st3 fx3 where
      b: "session_body cfg env st1 = Some (r2, st2, fx2)"
      and d: "await cfg (disconnect_env env) Disconnect st2 = (r3, st3, fx3)"
      and eq: "st' = st3"
        "fx = [Log INFO (Note ''Connecting'')] @ fx1 @ fx2 @ fx3
              @ (case (case r3 of Some e \<Rightarrow> Some e | None \<Rightarrow> r2) of
                   Some e \<Rightarrow> except_log e | None \<Rightarrow> [])"
      by (auto simp: monitor_device_connection_def Let_def split: option.splits prod.splits)
    have t3: "tracks st2 st3 fx3"
      by (rule await_tracks [OF _ _ d]) (simp_all add: reading_battery_def status_byte_def)
    have t4: "tracks st3 st3 (case (case r3 of Some e \<Rightarrow> Some e | None \<Rightarrow> r2) of
                   Some e \<Rightarrow> except_log e | None \<Rightarrow> [])"
      by (rule tracks_quiet) (auto simp: except_log_quiet split: option.splits)
    from tracks_append [OF q0 tracks_append [OF t1 tracks_append [OF session_body_tracks [OF b]
            tracks_append [OF t3 t4]]]] eq
    show ?thesis by simp
  qed
qed

lemma dispatch_quiet:
  "dispatch r = Stop e fx \<Longrightarrow> \<forall>x \<in> set fx. reading_battery x = None \<and> status_byte x = None"
  "dispatch r = Retry fx in_try \<Longrightarrow>
     \<forall>x \<in> set fx. reading_battery x = None \<and> status_byte x = None"
  by (induction r rule: dispatch.induct; auto simp: reading_battery_def status_byte_def)+

lemma monitor_device_tracks:
  "monitor_device cfg script st = Some (e, st', fx) \<Longrightarrow> tracks st st' fx"
proof (induction script arbitrary: st e st' fx)
  case Nil
  then show ?case by simp
next
  case (Cons turn script)
  obtain env sl where turn: "turn = (env, sl)" by (cases turn)
  from Cons.prems turn obtain r st1 fx1 where
    c: "monitor_device_connection cfg env st = Some (r, st1, fx1)"
    by (auto split: option.splits)
  note t1 = monitor_device_connection_tracks [OF c]
  show ?case
  proof (cases "dispatch r")
    case (Stop e0 fx0)
    with Cons.prems turn c have eq: "st' = st1" "fx = fx1 @ fx0" by simp_all
    have "tracks st1 st1 fx0" by (rule tracks_quiet [OF dispatch_quiet(1) [OF Stop]]) simp
    from tracks_append [OF t1 this] eq show ?thesis by simp
  next
    case (Retry fx0 in_try)
    have t0: "tracks st1 st1 fx0" by (rule tracks_quiet [OF dispatch_quiet(2) [OF Retry]]) simp
    obtain r2 st2 fx2 where s: "asyncio_sleep cfg sl retry_delay st1 = (r2, st2, fx2)"
      by (cases "asyncio_sleep cfg sl retry_delay st1")
    note t2 = asyncio_sleep_tracks [OF s]
    show ?thesis
    proof (cases r2)
      case (Some e2)
      with Cons.prems turn c Retry s have eq: "st' = st2"
        "fx = fx1 @ fx0 @ fx2
              @ (if in_try then [Log DEBUG (Note ''Monitoring cancelled'')] else [])"
        by simp_all
      have "tracks st2 st2 (if in_try then [Log DEBUG (Note ''Monitoring cancelled'')] else [])"
        by (rule tracks_quiet) (simp_all add: reading_battery_def status_byte_def)
      from tracks_append [OF t1 tracks_append [OF t0 tracks_append [OF t2 this]]] eq
      show ?thesis by simp
    next
      case None
      with Cons.prems turn c Retry s obtain e3 st3 fx3 where
        m: "monitor_device cfg script st2 = Some (e3, st3, fx3)"
        and eq: "st' = st3" "fx = fx1 @ fx0 @ fx2 @ fx3"
        by (auto split: option.splits)
      from tracks_append [OF t1 tracks_append [OF t0 tracks_append [OF t2 Cons.IH [OF m]]]] eq
      show ?thesis by simp
    qed
  qed
qed


subsection \<open>The readings emitted along a whole run\<close>

lemma emits_Nil [simp]: "emits cfg []"
  by (simp add: emits_def json_lines_def state_messages_def reading_frames_def)

lemma emits_append: "emits cfg fx1 \<Longrightarrow> emits cfg fx2 \<Longrightarrow> emits cfg (fx1 @ fx2)"
  by (simp add: emits_def json_lines_def state_messages_def reading_frames_def)

lemma plain_counts:
  assumes "plain x"
  shows "reading_frames cfg (x # fx) = reading_frames cfg fx"
    and "json_lines (x # fx) = json_lines fx"
    and "state_messages (x # fx) = state_messages fx"
proof -
  have "reading_frames cfg (x # fx) = reading_frames cfg fx
      \<and> json_lines (x # fx) = json_lines fx
      \<and> state_messages (x # fx) = state_messages fx"
  proof (cases x)
    case (Log l m)
    with assms show ?thesis
      by (cases m)
        (simp_all add: plain_def reading_frames_def json_lines_def state_messages_def)
  qed (use assms in \<open>simp_all add: plain_def reading_frames_def json_lines_def
        state_messages_def\<close>)
  then show "reading_frames cfg (x # fx) = reading_frames cfg fx"
    and "json_lines (x # fx) = json_lines fx"
    and "state_messages (x # fx) = state_messages fx"
    by simp_all
qed

lemma emits_Cons_plain: "plain x \<Longrightarrow> emits cfg fx \<Longrightarrow> emits cfg (x # fx)"
  by (simp add: emits_def plain_counts)

lemma emits_plain: "\<forall>x \<in> set fx. plain x \<Longrightarrow> emits cfg fx"
  by (induction fx) (simp_all add: emits_Cons_plain)

lemma handler_emits:
  assumes "notification_handler cfg clk ch b st = Inr (st', fx)"
  shows "emits cfg fx"
proof -
  consider (data) "lower (uuid ch) = lower UUID_DATA"
    | (status) "lower (uuid ch) = lower UUID_STATUS"
    | (meta) "lower (uuid ch) = lower UUID_META"
    | (short) "lower (uuid ch) = lower UUID_SHORT"
    | (other) "lower (uuid ch) \<noteq> lower UUID_DATA" "lower (uuid ch) \<noteq> lower UUID_STATUS"
        "lower (uuid ch) \<noteq> lower UUID_META" "lower (uuid ch) \<noteq> lower UUID_SHORT"
    by blast
  then show ?thesis
  proof cases
    case data
    show ?thesis
    proof (cases "length b = 20")
      case True
      from decode_data_frame_20 [OF this] obtain d where
        d: "decode_data_frame b = Inr (Some d)" and f: "flag d = uint (b ! 19)" by blast
      from handler_data_decoded [OF data d, of cfg clk st] assms data f True show ?thesis
        by (auto simp: output_json_data_def output_text_data_def publish_mqtt_def Let_def
            emits_def json_lines_def state_messages_def reading_frames_def
            split: if_splits)
    next
      case False
      with handler_data_invalid [OF data False, of cfg clk st] assms data show ?thesis
        by (auto simp: emits_def json_lines_def state_messages_def reading_frames_def)
    qed
  next
    case status
    with handler_status [OF status, of cfg clk b st] assms show ?thesis
      by (cases b) (auto simp: emits_def json_lines_def state_messages_def reading_frames_def)
  next
    case meta
    with handler_meta [OF meta, of cfg clk b st] assms show ?thesis
      by (auto simp: emits_def json_lines_def state_messages_def reading_frames_def
          split: if_splits)
  next
    case short
    with handler_short [OF short, of cfg clk b st] assms show ?thesis
      by (auto simp: emits_def json_lines_def state_messages_def reading_frames_def)
  next
    case other
    with handler_other [OF other, of cfg clk b st] assms show ?thesis
      by (auto simp: emits_def json_lines_def state_messages_def reading_frames_def)
  qed
qed

lemma deliver_emits: "deliver cfg ns st = (st', fx) \<Longrightarrow> emits cfg fx"
proof (induction ns arbitrary: st st' fx)
  case Nil
  then show ?case by simp
next
  case (Cons n ns)
  from handler_total [of cfg "n_clock n" "n_char n" "n_data n" st] obtain st1 fx1 where
    h: "notification_handler cfg (n_clock n) (n_char n) (n_data n) st = Inr (st1, fx1)"
    by blast
  obtain st2 fx2 where d: "deliver cfg ns st1 = (st2, fx2)"
    by (cases "deliver cfg ns st1")
  from Cons.prems h d have eq: "fx = fx1 @ fx2" by simp
  from emits_append [OF handler_emits [OF h] Cons.IH [OF d]] eq show ?case by simp
qed

lemma await_emits:
  assumes "plain operation" and "await cfg env operation st = (r, st', fx)"
  shows "emits cfg fx"
proof -
  obtain st1 fx1 where d: "deliver cfg (arrivals env) st = (st1, fx1)"
    by (cases "deliver cfg (arrivals env) st")
  with assms(2) have "fx = operation # fx1" by (simp add: await_def)
  with emits_Cons_plain [OF assms(1) deliver_emits [OF d]] show ?thesis by simp
qed

lemma asyncio_sleep_emits:
  assumes "asyncio_sleep cfg env secs st = (r, st', fx)"
  shows "emits cfg fx"
proof -
  obtain st1 fx1 where d: "deliver cfg (woken env) st = (st1, fx1)"
    by (cases "deliver cfg (woken env) st")
  with assms have "fx = Sleep secs # fx1" by (simp add: asyncio_sleep_def)
  with emits_Cons_plain [OF _ deliver_emits [OF d], of "Sleep secs"] show ?thesis
    by (simp add: plain_def)
qed

lemma chain_emits:
  assumes "\<forall>f \<in> set fs. \<forall>st r st' fx. f st = (r, st', fx) \<longrightarrow> emits cfg fx"
    and "chain fs st = (r, st', fx)"
  shows "emits cfg fx"
  using assms
proof (induction fs arbitrary: st r st' fx)
  case Nil
  then show ?case by simp
next
  case (Cons f fs)
  obtain r1 st1 fx1 where f: "f st = (r1, st1, fx1)" by (cases "f st")
  with Cons.prems(1) have t1: "emits cfg fx1" by simp
  show ?case
  proof (cases r1)
    case (Some e)
    with f Cons.prems(2) t1 show ?thesis by simp
  next
    case None
    obtain r2 st2 fx2 where c: "chain fs st1 = (r2, st2, fx2)" by (cases "chain fs st1")
    with f None Cons.prems(2) have eq: "fx = fx1 @ fx2" by simp
    from Cons.prems(1) have "\<forall>f \<in> set fs. \<forall>st r st' fx. f st = (r, st', fx) \<longrightarrow> emits cfg fx"
      by simp
    from emits_append [OF t1 Cons.IH [OF this c]] eq show ?thesis by simp
  qed
qed

lemma emit_emits:
  assumes "\<forall>x \<in> set fx0. plain x"
  shows "\<forall>st r st' fx. emit fx0 st = (r, st', fx) \<longrightarrow> emits cfg fx"
  using emits_plain [OF assms] by (auto simp: emit_def)

lemma await_emits_step:
  assumes "plain operation"
  shows "\<forall>st r st' fx. await cfg env operation st = (r, st', fx) \<longrightarrow> emits cfg fx"
  using await_emits [OF assms] by blast

lemma initialize_device_emits:
  "\<forall>st r st' fx. initialize_device cfg hs n wall st = (r, st', fx) \<longrightarrow> emits cfg fx"
  unfolding initialize_device_def Let_def
  apply (intro allI impI)
  apply (erule chain_emits [rotated])
  apply (simp only: list.set ball_simps insert_iff)
  apply (intro conjI ballI emit_emits await_emits_step)
  apply (auto simp: plain_def)
  done

lemma listen_emits:
  "listen cfg ps st = Some (r, st', fx) \<Longrightarrow> emits cfg fx"
proof (induction ps arbitrary: st r st' fx)
  case Nil
  then show ?case by simp
next
  case (Cons p ps)
  show ?case
  proof (cases "poll_fatal p")
    case True
    with Cons.prems show ?thesis
      by (auto intro!: emits_plain simp: plain_def)
  next
    case False
    let ?timeout = "case last_data_time st of
                None \<Rightarrow> None
              | Some t \<Rightarrow>
                  let time_since_last_data = float_sub (poll_time p) t
                  in if time_since_last_data > of_int (response_timeout cfg)
                     then Some time_since_last_data else None"
    show ?thesis
    proof (cases ?timeout)
      case (Some d)
      with False Cons.prems show ?thesis
        by (auto intro!: emits_plain simp: plain_def)
    next
      case None
      obtain r1 st1 fx1 where s: "asyncio_sleep cfg (poll_sleep p) 1 st = (r1, st1, fx1)"
        by (cases "asyncio_sleep cfg (poll_sleep p) 1 st")
      note t1 = asyncio_sleep_emits [OF s]
      show ?thesis
      proof (cases r1)
        case (Some e)
        with False None s Cons.prems t1 show ?thesis by simp
      next
        case none: None
        with False None s Cons.prems obtain r2 st2 fx2 where
          l: "listen cfg ps st1 = Some (r2, st2, fx2)" and eq: "fx = fx1 @ fx2"
          by (auto split: option.splits)
        from emits_append [OF t1 Cons.IH [OF l]] eq show ?thesis by simp
      qed
    qed
  qed
qed

lemma session_body_emits:
  assumes "session_body cfg env st = Some (r, st', fx)"
  shows "emits cfg fx"
proof (cases "is_connected env")
  case False
  with assms show ?thesis
    by (auto intro!: emits_plain simp: session_body_def plain_def)
next
  case True
  let ?steps =
    "[emit [Log INFO (Note ''Connected successfully''),
            Log DEBUG (Note ''Performing service discovery...''),
            Log DEBUG (Note ''Service discovery completed'')],
      initialize_device cfg (handshake_env env) (rand_num env) (sync_now env),
      emit (if mqtt_auto_discovery cfg
            then publish_home_assistant_discovery cfg (device_address cfg) else []),
      emit [Log INFO (Note ''Listening for sensor data'')]]"
  obtain r1 st1 fx1 where c: "chain ?steps st = (r1, st1, fx1)" by (cases "chain ?steps st")
  have "\<forall>f \<in> set ?steps. \<forall>st r st' fx. f st = (r, st', fx) \<longrightarrow> emits cfg fx"
    apply (simp only: list.set ball_simps insert_iff)
    apply (intro conjI ballI emit_emits initialize_device_emits)
    apply (auto simp: plain_def publish_home_assistant_discovery_def split: if_splits)
    done
  from chain_emits [OF this c] have t1: "emits cfg fx1" .
  show ?thesis
  proof (cases r1)
    case (Some e)
    with True c assms t1 show ?thesis by (simp add: session_body_def)
  next
    case None
    with True c assms obtain r2 st2 fx2 where
      l: "listen cfg (polls env) (st1\<lparr>last_data_time := Some (listen_start env)\<rparr>)
            = Some (r2, st2, fx2)"
      and eq: "fx = fx1 @ fx2"
      by (auto simp: session_body_def split: option.splits)
    from emits_append [OF t1 listen_emits [OF l]] eq show ?thesis by simp
  qed
qed

lemma except_log_plain: "\<forall>x \<in> set (except_log e). plain x"
  by (cases e) (simp_all add: plain_def)

lemma monitor_device_connection_emits:
  assumes "monitor_device_connection cfg env st = Some (r, st', fx)"
  shows "emits cfg fx"
proof (cases "fatal_at_start env")
  case True
  with assms show ?thesis
    by (auto intro!: emits_plain simp: monitor_device_connection_def plain_def)
next
  case False
  have q0: "emits cfg [Log INFO (Note ''Connecting'')]"
    by (rule emits_plain) (simp_all add: plain_def)
  obtain r1 st1 fx1 where
    a: "await cfg (connect_env env) (Connect (device_address cfg)) st = (r1, st1, fx1)"
    by (cases "await cfg (connect_env env) (Connect (device_address cfg)) st")
  have t1: "emits cfg fx1"
    by (rule await_emits [OF _ a]) (simp_all add: plain_def)
  show ?thesis
  proof (cases r1)
    case (Some e)
    with False a assms have eq:
      "fx = [Log INFO (Note ''Connecting'')] @ fx1 @ except_log e"
      by (simp_all add: monitor_device_connection_def Let_def)
    have "emits cfg (except_log e)"
      by (rule emits_plain [OF except_log_plain])
    from emits_append [OF q0 emits_append [OF t1 this]] eq show ?thesis by simp
  next
    case None
    with False a assms obtain r2 st2 fx2 r3 st3 fx3 where
      b: "session_body cfg env st1 = Some (r2, st2, fx2)"
      and d: "await cfg (disconnect_env env) Disconnect st2 = (r3, st3, fx3)"
      and eq:
        "fx = [Log INFO (Note ''Connecting'')] @ fx1 @ fx2 @ fx3
              @ (case (case r3 of Some e \<Rightarrow> Some e | None \<Rightarrow> r2) of
                   Some e \<Rightarrow> except_log e | None \<Rightarrow> [])"
      by (auto simp: monitor_device_connection_def Let_def split: option.splits prod.splits)
    have t3: "emits cfg fx3"
      by (rule await_emits [OF _ d]) (simp_all add: plain_def)
    have t4: "emits cfg (case (case r3 of Some e \<Rightarrow> Some e | None \<Rightarrow> r2) of
                   Some e \<Rightarrow> except_log e | None \<Rightarrow> [])"
      by (rule emits_plain) (auto simp: except_log_plain split: option.splits)
    from emits_append [OF q0 emits_append [OF t1 emits_append [OF session_body_emits [OF b]
            emits_append [OF t3 t4]]]] eq
    show ?thesis by simp
  qed
qed

lemma dispatch_plain:
  "dispatch r = Stop e fx \<Longrightarrow> \<forall>x \<in> set fx. plain x"
  "dispatch r = Retry fx in_try \<Longrightarrow> \<forall>x \<in> set fx. plain x"
  by (induction r rule: dispatch.induct; auto simp: plain_def)+

lemma monitor_device_emits:
  "monitor_device cfg script st = Some (e, st', fx) \<Longrightarrow> emits cfg fx"
proof (induction script arbitrary: st e st' fx)
  case Nil
  then show ?case by simp
next
  case (Cons turn script)
  obtain env sl where turn: "turn = (env, sl)" by (cases turn)
  from Cons.prems turn obtain r st1 fx1 where
    c: "monitor_device_connection cfg env st = Some (r, st1, fx1)"
    by (auto split: option.splits)
  note t1 = monitor_device_connection_emits [OF c]
  show ?case
  proof (cases "dispatch r")
    case (Stop e0 fx0)
    with Cons.prems turn c have eq: "fx = fx1 @ fx0" by simp
    have "emits cfg fx0" by (rule emits_plain [OF dispatch_plain(1) [OF Stop]])
    from emits_append [OF t1 this] eq show ?thesis by simp
  next
    case (Retry fx0 in_try)
    have t0: "emits cfg fx0" by (rule emits_plain [OF dispatch_plain(2) [OF Retry]])
    obtain r2 st2 fx2 where s: "asyncio_sleep cfg sl retry_delay st1 = (r2, st2, fx2)"
      by (cases "asyncio_sleep cfg sl retry_delay st1")
    note t2 = asyncio_sleep_emits [OF s]
    show ?thesis
    proof (cases r2)
      case (Some e2)
      with Cons.prems turn c Retry s have eq:
        "fx = fx1 @ fx0 @ fx2
              @ (if in_try then [Log DEBUG (Note ''Monitoring cancelled'')] else [])"
        by simp
      have "emits cfg (if in_try then [Log DEBUG (Note ''Monitoring cancelled'')] else [])"
        by (rule emits_plain) (simp_all add: plain_def)
      from emits_append [OF t1 emits_append [OF t0 emits_append [OF t2 this]]] eq
      show ?thesis by simp
    next
      case None
      with Cons.prems turn c Retry s obtain e3 st3 fx3 where
        m: "monitor_device cfg script st2 = Some (e3, st3, fx3)"
        and eq: "fx = fx1 @ fx0 @ fx2 @ fx3"
        by (auto split: option.splits)
      from emits_append [OF t1 emits_append [OF t0 emits_append [OF t2 Cons.IH [OF m]]]] eq
      show ?thesis by simp
    qed
  qed
qed


subsection \<open>Decimal digits of the nonce\<close>

lemma digit_char_values:
  "digit_char 0 = CHR ''0''" "digit_char 1 = CHR ''1''" "digit_char 2 = CHR ''2''"
  "digit_char 3 = CHR ''3''" "digit_char 4 = CHR ''4''" "digit_char 5 = CHR ''5''"
  "digit_char 6 = CHR ''6''" "digit_char 7 = CHR ''7''" "digit_char 8 = CHR ''8''"
  "digit_char 9 = CHR ''9''" "digit_char (Suc 0) = CHR ''1''"
  by (simp_all add: digit_char_def char_of_eq_iff)

lemma byte_of_nat_mod_256: "(of_nat ((48 + d) mod 256) :: byte) = of_nat (48 + d)"
  by (simp only: word_of_nat_eq_iff) (simp add: take_bit_eq_mod)


lemma byte_of_digit_char: "(of_char (digit_char d) :: byte) = of_nat (48 + d)"
proof -
  have "(of_char (digit_char d) :: byte) = of_nat (of_char (digit_char d) :: nat)"
    by (simp only: of_nat_of_char)
  also have "(of_char (digit_char d) :: nat) = (48 + d) mod 256"
    by (simp add: digit_char_def)
  also have "(of_nat ((48 + d) mod 256) :: byte) = of_nat (48 + d)"
    by (rule byte_of_nat_mod_256)
  finally show ?thesis .
qed

lemma uint_digit_byte: "d < 10 \<Longrightarrow> uint (of_nat (48 + d) :: byte) = 48 + int d"
  by (simp only: unsigned_of_nat) (simp add: take_bit_eq_mod)

lemma replicate_small:
  "replicate 1 x = [x]" "replicate 2 x = [x, x]" "replicate 3 x = [x, x, x]"
  "replicate 4 x = [x, x, x, x]" "replicate 5 x = [x, x, x, x, x]"
  "replicate 10 x = [x, x, x, x, x, x, x, x, x, x]"
  by (simp_all add: numeral_eq_Suc)

lemma build_auth_key_123456:
  "build_auth_key 123456 =
     ([0, 1, 49, 50, 51, 52, 53, 54, 0, 0, 0, 0, 0, 0, 0, 0, 0, 0], ''123456'')"
  by (simp add: build_auth_key_def format_06d_def dec_digits.simps digit_char_values
      encode_ascii_def Let_def replicate_small)


lemma dec_digits_1: "n < 10 \<Longrightarrow> dec_digits n = [digit_char n]"
  by (subst dec_digits.simps) simp

lemma dec_digits_step:
  "10 \<le> n \<Longrightarrow> dec_digits n = dec_digits (n div 10) @ [digit_char (n mod 10)]"
  by (subst dec_digits.simps) simp

lemma dec_digits_2:
  "10 \<le> n \<Longrightarrow> n < 100 \<Longrightarrow> dec_digits n = [digit_char (n div 10), digit_char (n mod 10)]"
  by (simp add: dec_digits_step dec_digits_1)

lemma dec_digits_3:
  assumes "100 \<le> n" "n < 1000"
  shows "dec_digits n = [digit_char (n div 100), digit_char (n div 10 mod 10), digit_char (n mod 10)]"
proof -
  from assms have "10 \<le> n" "10 \<le> n div 10" "n div 10 < 100" by simp_all
  then show ?thesis
    by (simp add: dec_digits_step [of n] dec_digits_2 div_mult2_eq [symmetric])
qed

lemma dec_digits_4:
  assumes "1000 \<le> n" "n < 10000"
  shows "dec_digits n = [digit_char (n div 1000), digit_char (n div 100 mod 10),
     digit_char (n div 10 mod 10), digit_char (n mod 10)]"
proof -
  from assms have "10 \<le> n" "100 \<le> n div 10" "n div 10 < 1000" by simp_all
  then show ?thesis
    by (simp add: dec_digits_step [of n] dec_digits_3 div_mult2_eq [symmetric])
qed

lemma dec_digits_5:
  assumes "10000 \<le> n" "n < 100000"
  shows "dec_digits n = [digit_char (n div 10000), digit_char (n div 1000 mod 10),
     digit_char (n div 100 mod 10), digit_char (n div 10 mod 10), digit_char (n mod 10)]"
proof -
  from assms have "10 \<le> n" "1000 \<le> n div 10" "n div 10 < 10000" by simp_all
  then show ?thesis
    by (simp add: dec_digits_step [of n] dec_digits_4 div_mult2_eq [symmetric])
qed

lemma dec_digits_6:
  assumes "100000 \<le> n" "n < 1000000"
  shows "dec_digits n = [digit_char (n div 100000), digit_char (n div 10000 mod 10),
     digit_char (n div 1000 mod 10), digit_char (n div 100 mod 10),
     digit_char (n div 10 mod 10), digit_char (n mod 10)]"
proof -
  from assms have "10 \<le> n" "10000 \<le> n div 10" "n div 10 < 100000" by simp_all
  then show ?thesis
    by (simp add: dec_digits_step [of n] dec_digits_5 div_mult2_eq [symmetric])
qed

lemma format_06d_digits:
  assumes "n < 1000000"
  shows "format_06d n =
     [digit_char (n div 100000 mod 10), digit_char (n div 10000 mod 10),
      digit_char (n div 1000 mod 10), digit_char (n div 100 mod 10),
      digit_char (n div 10 mod 10), digit_char (n mod 10)]"
proof -
  consider "n < 10" | "10 \<le> n" "n < 100" | "100 \<le> n" "n < 1000" | "1000 \<le> n" "n < 10000"
    | "10000 \<le> n" "n < 100000" | "100000 \<le> n" "n < 1000000"
    using assms by linarith
  then show ?thesis
  proof cases
    case 1
    then show ?thesis
      by (simp add: format_06d_def dec_digits_1 replicate_small digit_char_values)
  next
    case 2
    then show ?thesis
      by (simp add: format_06d_def dec_digits_2 replicate_small digit_char_values)
  next
    case 3
    then show ?thesis
      by (simp add: format_06d_def dec_digits_3 replicate_small digit_char_values)
  next
    case 4
    then show ?thesis
      by (simp add: format_06d_def dec_digits_4 replicate_small digit_char_values)
  next
    case 5
    then show ?thesis
      by (simp add: format_06d_def dec_digits_5 replicate_small digit_char_values)
  next
    case 6
    then have "n div 100000 < 10" by simp
    with 6 show ?thesis
      by (simp add: format_06d_def dec_digits_6)
  qed
qed

subsection \<open>Sample runs\<close>

lemma decode_live_frame:
  "decode_data_frame live_frame =
     Inr (Some \<lparr>header = Some \<lparr>year_offset = 25, year_2000 = 2025, month = 6, day = 15,
                    hour = 10, minute = 30, second = 45\<rparr>,
                pm25 = 261, pm1 = 7, pm10 = 521, unknown1 = 0, unused4 = [0, 0, 0, 0],
                counter = 77, flag = 1, flag_meaning = ''current'', particles = 366.3125,
                particles_msb = 1, particles_lsb = 5\<rparr>)"
  by (simp add: live_frame_def decode_data_frame_def PACKET_SIZE_DATA_def
      decode_header_datetime_def slice_def u16_le_def getitem_def Let_def
      PARTICLE_MULTIPLIER_BASE_def PARTICLE_MULTIPLIER_LSB_def
      PARTICLE_MULTIPLIER_CORRECTION_def PARTICLE_DIVISOR_def fl64_eval drop_bit_eq_div)

lemma initialize_device_quiet:
  "initialize_device cfg (\<lambda>k. quiet_await) n wall st =
     (None, st,
      [Log INFO (Note ''Starting device initialization...''),
       Log DEBUG (Note ''Enabling notifications...''),
       StartNotify UUID_STATUS,
       Log DEBUG (Note ''STATUS notifications enabled''),
       StartNotify UUID_SHORT,
       Log DEBUG (Note ''SHORT notifications enabled''),
       StartNotify UUID_META,
       Log DEBUG (Note ''META notifications enabled''),
       StartNotify UUID_DATA,
       Log DEBUG (Note ''DATA notifications enabled''),
       Log DEBUG (MsgAuthKey (snd (build_auth_key n)) (fst (build_auth_key n))),
       WriteGattChar UUID_KEY (fst (build_auth_key n)) True,
       Log DEBUG (Note ''Authentication key accepted''),
       Log DEBUG (MsgCmdStart CMD_START),
       WriteGattChar UUID_CMD CMD_START True,
       Log DEBUG (Note ''CMD_START accepted''),
       Log INFO (MsgTimeSync (snd (build_time_sync wall))),
       Log DEBUG (MsgTimeSyncBytes (fst (build_time_sync wall))),
       WriteGattChar UUID_KEY (fst (build_time_sync wall)) True,
       Log DEBUG (Note ''Time sync accepted''),
       Log INFO (Note ''Device initialization completed'')])"
  by (simp add: initialize_device_def Let_def emit_def await_def quiet_await_def)

lemma await_quiet: "await cfg quiet_await operation st = (None, st, [operation])"
  by (simp add: await_def quiet_await_def)

lemma asyncio_sleep_quiet: "asyncio_sleep cfg quiet_sleep secs st = (None, st, [Sleep secs])"
  by (simp add: asyncio_sleep_def quiet_sleep_def)

lemma smooth_session_fields:
  "fatal_at_start (smooth_session t ps) = False"
  "connect_env (smooth_session t ps) = quiet_await"
  "disconnect_env (smooth_session t ps) = quiet_await"
  by (simp_all add: smooth_session_def)

lemma smooth_connection:
  assumes "\<not> mqtt_auto_discovery cfg"
  shows "monitor_device_connection cfg (smooth_session t ps) st =
     (case listen cfg ps (st\<lparr>last_data_time := Some t\<rparr>) of
        None \<Rightarrow> None
      | Some (r, st2, fx2) \<Rightarrow>
          Some (r, st2,
            [Log INFO (Note ''Connecting''), Connect (device_address cfg),
             Log INFO (Note ''Connected successfully''),
             Log DEBUG (Note ''Performing service discovery...''),
             Log DEBUG (Note ''Service discovery completed'')]
            @ snd (snd (initialize_device cfg (\<lambda>k. quiet_await) 123456
                          (datetime_now (clock_at t)) st))
            @ [Log INFO (Note ''Listening for sensor data'')]
            @ fx2 @ [Disconnect]
            @ (case r of Some e \<Rightarrow> except_log e | None \<Rightarrow> [])))"
proof -
  have body: "session_body cfg (smooth_session t ps) st =
     (case listen cfg ps (st\<lparr>last_data_time := Some t\<rparr>) of
        None \<Rightarrow> None
      | Some (r, st2, fx2) \<Rightarrow>
          Some (r, st2,
            [Log INFO (Note ''Connected successfully''),
             Log DEBUG (Note ''Performing service discovery...''),
             Log DEBUG (Note ''Service discovery completed'')]
            @ snd (snd (initialize_device cfg (\<lambda>k. quiet_await) 123456
                          (datetime_now (clock_at t)) st))
            @ [Log INFO (Note ''Listening for sensor data'')] @ fx2))"
    using assms
    by (simp add: session_body_def smooth_session_def initialize_device_quiet emit_def
        split: option.splits)
  show ?thesis
    unfolding monitor_device_connection_def
    by (simp add: body smooth_session_fields await_quiet Let_def split: option.splits)
qed


lemma handler_live_frame:
  "lower (uuid ch) = lower UUID_DATA \<Longrightarrow>
   notification_handler (Config\<lparr>output_format := ''json''\<rparr>) clk ch live_frame st =
     Inr (st\<lparr>last_data_time := Some (time_time clk)\<rparr>,
          [Log DEBUG (MsgNotification (handle ch) (uuid ch) live_frame),
           PrintReading \<lparr>j_timestamp = Some (2025, 6, 15, 10, 30, 45), j_pm1 = 7,
             j_pm25 = 261, j_pm10 = 521, j_particles = py_round2 366.3125,
             j_battery = latest_battery st\<rparr>])"
  using handler_data_decoded [OF _ decode_live_frame,
      of ch "Config\<lparr>output_format := ''json''\<rparr>" clk st]
  by (simp add: Config_def output_json_data_def)

text \<open>
  Claim C9 as stated fails in the default configuration (text output, MQTT off): the
  STATUS frame \<open>[42]\<close> is stored, but the reading emitted for the next DATA frame is the
  text line, which has no battery field, so the value is not visible in it.
\<close>

theorem text_reading_shows_no_battery:
  "deliver Config
     [\<lparr>n_clock = clock_at 1000, n_char = \<lparr>handle = 46, uuid = UUID_STATUS\<rparr>,
        n_data = [42]\<rparr>,
      \<lparr>n_clock = clock_at 1001, n_char = \<lparr>handle = 54, uuid = UUID_DATA\<rparr>,
        n_data = live_frame\<rparr>]
     SensorState
   = (\<lparr>latest_battery = 42, last_data_time = Some 1001\<rparr>,
      [Log DEBUG (MsgNotification 46 UUID_STATUS [42]),
       Log INFO (MsgBatteryLevel 42),
       Log DEBUG (MsgNotification 54 UUID_DATA live_frame),
       Log INFO (MsgReading 7 261 521 366.3125 ''current'')])"
  by (simp add: handler_status handler_data_decoded [OF _ decode_live_frame]
      Config_def output_text_data_def clock_at_def SensorState_def)

lemma two_session_run:
  "\<exists>st fx.
     monitor_device (Config\<lparr>output_format := ''json''\<rparr>)
       [(smooth_session 1000
           [\<lparr>poll_fatal = False, poll_time = 1001,
              poll_sleep = \<lparr>woken = [\<lparr>n_clock = clock_at 1002,
                n_char = \<lparr>handle = 46, uuid = UUID_STATUS\<rparr>, n_data = [42]\<rparr>],
                cancelled = False\<rparr>\<rparr>,
            \<lparr>poll_fatal = False, poll_time = 1400, poll_sleep = quiet_sleep\<rparr>],
         quiet_sleep),
        (smooth_session 1410
           [\<lparr>poll_fatal = False, poll_time = 1411,
              poll_sleep = \<lparr>woken = [\<lparr>n_clock = clock_at 1412,
                n_char = \<lparr>handle = 54, uuid = UUID_DATA\<rparr>, n_data = live_frame\<rparr>],
                cancelled = True\<rparr>\<rparr>],
         quiet_sleep)]
       SensorState = Some (CancelledError, st, fx)
   \<and> latest_battery st = 42
   \<and> milestones fx =
       [Connect [],
        Log DEBUG (MsgNotification 46 UUID_STATUS [42]),
        Disconnect,
        Connect [],
        Log DEBUG (MsgNotification 54 UUID_DATA live_frame),
        PrintReading \<lparr>j_timestamp = Some (2025, 6, 15, 10, 30, 45), j_pm1 = 7,
          j_pm25 = 261, j_pm10 = 521, j_particles = py_round2 366.3125, j_battery = 42\<rparr>,
        Disconnect]"
proof -
  have nd: "\<not> mqtt_auto_discovery (Config\<lparr>output_format := ''json''\<rparr>)"
    by (simp add: Config_def)
  have rt: "response_timeout (Config\<lparr>output_format := ''json''\<rparr>) = 300"
    "device_address (Config\<lparr>output_format := ''json''\<rparr>) = []"
    by (simp_all add: Config_def)
  have t1: "\<not> float_sub 1001 1000 > 300" "float_sub 1400 1002 > 300" "float_sub 1400 1002 = 398"
    "\<not> float_sub 1411 1410 > 300"
    by (simp_all add: fl64_eval)
  show ?thesis
    by (simp add: smooth_connection [OF nd] rt t1 quiet_sleep_def asyncio_sleep_def
        handler_status handler_live_frame initialize_device_quiet retry_delay_def
        clock_at_def SensorState_def milestones_def)
qed


lemma filter_filter_imp:
  "(\<And>x. P x \<Longrightarrow> Q x) \<Longrightarrow> filter P (filter Q xs) = filter P xs"
  by (induction xs) auto

lemma milestones_keep:
  "reading_frames cfg (milestones fx) = reading_frames cfg fx"
  "json_lines (milestones fx) = json_lines fx"
  "state_messages (milestones fx) = state_messages fx"
proof -
  show "reading_frames cfg (milestones fx) = reading_frames cfg fx"
    unfolding reading_frames_def milestones_def
  proof (rule filter_filter_imp)
    fix x
    assume a: "case x of
        Log l m \<Rightarrow>
          (case m of
             MsgNotification h u b \<Rightarrow>
               lower u = lower UUID_DATA \<and> length b = 20
               \<and> (uint (b ! 19) \<noteq> 0 \<or> include_history cfg)
           | _ \<Rightarrow> False)
      | _ \<Rightarrow> False"
    show "case x of
        Connect a \<Rightarrow> True
      | Disconnect \<Rightarrow> True
      | PrintReading r \<Rightarrow> True
      | Publish t q \<Rightarrow> True
      | Log l m \<Rightarrow> (case m of MsgNotification h u b \<Rightarrow> True | _ \<Rightarrow> False)
      | _ \<Rightarrow> False"
    proof (cases x)
      case (Log l m)
      with a show ?thesis by (cases m) simp_all
    qed (use a in simp_all)
  qed
  show "json_lines (milestones fx) = json_lines fx"
    unfolding json_lines_def milestones_def
    by (rule filter_filter_imp) (simp split: effect.splits)
  show "state_messages (milestones fx) = state_messages fx"
    unfolding state_messages_def milestones_def
    by (rule filter_filter_imp) (simp split: effect.splits)
qed

lemma handler_live_frame_mqtt:
  "lower (uuid ch) = lower UUID_DATA \<Longrightarrow>
   notification_handler
     (Config\<lparr>output_format := ''json'', mqtt_enabled := True, mqtt_client := True\<rparr>)
     clk ch live_frame st =
     Inr (st\<lparr>last_data_time := Some (time_time clk)\<rparr>,
          [Log DEBUG (MsgNotification (handle ch) (uuid ch) live_frame),
           PrintReading \<lparr>j_timestamp = Some (2025, 6, 15, 10, 30, 45), j_pm1 = 7,
             j_pm25 = 261, j_pm10 = 521, j_particles = py_round2 366.3125,
             j_battery = latest_battery st\<rparr>,
           Publish ''homeassistant/sensor/vson//state''
             \<lparr>q_timestamp = datetime_now clk, q_pm25 = 261, q_pm1 = 7, q_pm10 = 521,
              q_particles = py_round2 366.3125, q_battery = latest_battery st,
              q_flag = ''current''\<rparr>,
           Log DEBUG (MsgPublished ''homeassistant/sensor/vson//state'')])"
  using handler_data_decoded [OF _ decode_live_frame,
      of ch "Config\<lparr>output_format := ''json'', mqtt_enabled := True, mqtt_client := True\<rparr>"
        clk st]
  by (simp add: Config_def output_json_data_def publish_mqtt_def lower_def Let_def)

lemma two_session_run_mqtt:
  "\<exists>st fx.
     monitor_device
       (Config\<lparr>output_format := ''json'', mqtt_enabled := True, mqtt_client := True\<rparr>)
       [(smooth_session 1000
           [\<lparr>poll_fatal = False, poll_time = 1001,
              poll_sleep = \<lparr>woken = [\<lparr>n_clock = clock_at 1002,
                n_char = \<lparr>handle = 46, uuid = UUID_STATUS\<rparr>, n_data = [42]\<rparr>],
                cancelled = False\<rparr>\<rparr>,
            \<lparr>poll_fatal = False, poll_time = 1400, poll_sleep = quiet_sleep\<rparr>],
         quiet_sleep),
        (smooth_session 1410
           [\<lparr>poll_fatal = False, poll_time = 1411,
              poll_sleep = \<lparr>woken = [\<lparr>n_clock = clock_at 1412,
                n_char = \<lparr>handle = 54, uuid = UUID_DATA\<rparr>, n_data = live_frame\<rparr>],
                cancelled = True\<rparr>\<rparr>],
         quiet_sleep)]
       SensorState = Some (CancelledError, st, fx)
   \<and> latest_battery st = 42
   \<and> milestones fx =
       [Connect [],
        Log DEBUG (MsgNotification 46 UUID_STATUS [42]),
        Disconnect,
        Connect [],
        Log DEBUG (MsgNotification 54 UUID_DATA live_frame),
        PrintReading \<lparr>j_timestamp = Some (2025, 6, 15, 10, 30, 45), j_pm1 = 7,
          j_pm25 = 261, j_pm10 = 521, j_particles = py_round2 366.3125, j_battery = 42\<rparr>,
        Publish ''homeassistant/sensor/vson//state''
          \<lparr>q_timestamp = datetime_now (clock_at 1412), q_pm25 = 261, q_pm1 = 7, q_pm10 = 521,
           q_particles = py_round2 366.3125, q_battery = 42, q_flag = ''current''\<rparr>,
        Disconnect]"
proof -
  let ?cfg = "Config\<lparr>output_format := ''json'', mqtt_enabled := True, mqtt_client := True\<rparr>"
  have nd: "\<not> mqtt_auto_discovery ?cfg"
    by (simp add: Config_def)
  have rt: "response_timeout ?cfg = 300" "device_address ?cfg = []"
    by (simp_all add: Config_def)
  have t1: "\<not> float_sub 1001 1000 > 300" "float_sub 1400 1002 > 300" "float_sub 1400 1002 = 398"
    "\<not> float_sub 1411 1410 > 300"
    by (simp_all add: fl64_eval)
  show ?thesis
    by (simp add: smooth_connection [OF nd] rt t1 quiet_sleep_def asyncio_sleep_def
        handler_status handler_live_frame_mqtt initialize_device_quiet retry_delay_def
        clock_at_def SensorState_def milestones_def)
qed

text \<open>
  Claim C2, as the code has it. The battery value belongs to the process, not to a
  connection: it is 0 when the program starts, and along every run of the reconnection
  loop, over any number of connections, each reading emitted as a JSON line or as an
  MQTT state message carries byte 0 of the last non-empty STATUS frame handled before
  it since the program started (0 before the first), and the stored value ends as that
  of the last such frame. Nothing resets it when a new connection is made. Such readings
  are emitted: with the output format \<open>json\<close> there is one JSON line for every DATA
  frame of 20 bytes that passes the history filter, and with MQTT enabled and a client
  one MQTT state message for every such frame. The text output line has no battery
  field, and without \<open>json\<close> or MQTT no reading with a battery field is emitted.
\<close>

theorem battery_state_is_process_wide:
  assumes "monitor_device cfg script SensorState = Some (e, st, fx)"
  shows "readings_carry 0 fx \<and> latest_battery st = battery_after 0 fx
       \<and> length (json_lines fx) =
           (if output_format cfg = ''json'' then length (reading_frames cfg fx) else 0)
       \<and> length (state_messages fx) =
           (if mqtt_enabled cfg \<and> mqtt_client cfg then length (reading_frames cfg fx) else 0)"
  using monitor_device_tracks [OF assms] monitor_device_emits [OF assms]
  by (simp add: tracks_def SensorState_def emits_def)

theorem battery_state_is_process_wide_witness:
  "\<exists>e st fx.
     monitor_device
       (Config\<lparr>output_format := ''json'', mqtt_enabled := True, mqtt_client := True\<rparr>)
       [(smooth_session 1000
           [\<lparr>poll_fatal = False, poll_time = 1001,
              poll_sleep = \<lparr>woken = [\<lparr>n_clock = clock_at 1002,
                n_char = \<lparr>handle = 46, uuid = UUID_STATUS\<rparr>, n_data = [42]\<rparr>],
                cancelled = False\<rparr>\<rparr>,
            \<lparr>poll_fatal = False, poll_time = 1400, poll_sleep = quiet_sleep\<rparr>],
         quiet_sleep),
        (smooth_session 1410
           [\<lparr>poll_fatal = False, poll_time = 1411,
              poll_sleep = \<lparr>woken = [\<lparr>n_clock = clock_at 1412,
                n_char = \<lparr>handle = 54, uuid = UUID_DATA\<rparr>, n_data = live_frame\<rparr>],
                cancelled = True\<rparr>\<rparr>],
         quiet_sleep)]
       SensorState = Some (e, st, fx)
   \<and> readings_carry 0 fx \<and> latest_battery st = battery_after 0 fx \<and> latest_battery st = 42
   \<and> length (reading_frames
        (Config\<lparr>output_format := ''json'', mqtt_enabled := True, mqtt_client := True\<rparr>) fx) = 1
   \<and> length (json_lines fx) = 1 \<and> length (state_messages fx) = 1
   \<and> (\<exists>r. PrintReading r \<in> set fx \<and> j_battery r = 42)
   \<and> (\<exists>t q. Publish t q \<in> set fx \<and> q_battery q = 42)"
proof -
  let ?cfg = "Config\<lparr>output_format := ''json'', mqtt_enabled := True, mqtt_client := True\<rparr>"
  from two_session_run_mqtt obtain st fx where
    run: "monitor_device
       (Config\<lparr>output_format := ''json'', mqtt_enabled := True, mqtt_client := True\<rparr>)
       [(smooth_session 1000
           [\<lparr>poll_fatal = False, poll_time = 1001,
              poll_sleep = \<lparr>woken = [\<lparr>n_clock = clock_at 1002,
                n_char = \<lparr>handle = 46, uuid = UUID_STATUS\<rparr>, n_data = [42]\<rparr>],
                cancelled = False\<rparr>\<rparr>,
            \<lparr>poll_fatal = False, poll_time = 1400, poll_sleep = quiet_sleep\<rparr>],
         quiet_sleep),
        (smooth_session 1410
           [\<lparr>poll_fatal = False, poll_time = 1411,
              poll_sleep = \<lparr>woken = [\<lparr>n_clock = clock_at 1412,
                n_char = \<lparr>handle = 54, uuid = UUID_DATA\<rparr>, n_data = live_frame\<rparr>],
                cancelled = True\<rparr>\<rparr>],
         quiet_sleep)]
       SensorState = Some (CancelledError, st, fx)"
    and b: "latest_battery st = 42"
    and ms: "milestones fx =
       [Connect [],
        Log DEBUG (MsgNotification 46 UUID_STATUS [42]),
        Disconnect,
        Connect [],
        Log DEBUG (MsgNotification 54 UUID_DATA live_frame),
        PrintReading \<lparr>j_timestamp = Some (2025, 6, 15, 10, 30, 45), j_pm1 = 7,
          j_pm25 = 261, j_pm10 = 521, j_particles = py_round2 366.3125, j_battery = 42\<rparr>,
        Publish ''homeassistant/sensor/vson//state''
          \<lparr>q_timestamp = datetime_now (clock_at 1412), q_pm25 = 261, q_pm1 = 7, q_pm10 = 521,
           q_particles = py_round2 366.3125, q_battery = 42, q_flag = ''current''\<rparr>,
        Disconnect]"
    by blast
  have cfg: "output_format ?cfg = ''json''" "mqtt_enabled ?cfg \<and> mqtt_client ?cfg"
    by (simp_all add: Config_def)
  from battery_state_is_process_wide [OF run] cfg have
    carry: "readings_carry 0 fx" "latest_battery st = battery_after 0 fx"
    and n: "length (json_lines fx) = length (reading_frames ?cfg fx)"
      "length (state_messages fx) = length (reading_frames ?cfg fx)"
    by simp_all
  have "reading_frames ?cfg (milestones fx) =
      [Log DEBUG (MsgNotification 54 UUID_DATA live_frame)]"
    unfolding ms by (simp add: reading_frames_def live_frame_def)
  then have one: "length (reading_frames ?cfg fx) = 1"
    by (simp add: milestones_keep)
  have sub: "set (milestones fx) \<subseteq> set fx"
    by (simp add: milestones_def)
  have "PrintReading \<lparr>j_timestamp = Some (2025, 6, 15, 10, 30, 45), j_pm1 = 7,
          j_pm25 = 261, j_pm10 = 521, j_particles = py_round2 366.3125, j_battery = 42\<rparr>
        \<in> set (milestones fx)"
    unfolding ms by simp
  with sub have pr: "\<exists>r. PrintReading r \<in> set fx \<and> j_battery r = 42"
    by (intro exI [of _ "\<lparr>j_timestamp = Some (2025, 6, 15, 10, 30, 45), j_pm1 = 7,
          j_pm25 = 261, j_pm10 = 521, j_particles = py_round2 366.3125, j_battery = 42\<rparr>"])
      auto
  have "Publish ''homeassistant/sensor/vson//state''
          \<lparr>q_timestamp = datetime_now (clock_at 1412), q_pm25 = 261, q_pm1 = 7, q_pm10 = 521,
           q_particles = py_round2 366.3125, q_battery = 42, q_flag = ''current''\<rparr>
        \<in> set (milestones fx)"
    unfolding ms by simp
  with sub have pb: "\<exists>t q. Publish t q \<in> set fx \<and> q_battery q = 42"
    by (intro exI [of _ "''homeassistant/sensor/vson//state''"]
        exI [of _ "\<lparr>q_timestamp = datetime_now (clock_at 1412), q_pm25 = 261, q_pm1 = 7,
           q_pm10 = 521, q_particles = py_round2 366.3125, q_battery = 42,
           q_flag = ''current''\<rparr>"])
      auto
  from run carry b one n pr pb show ?thesis
    by (intro exI [of _ CancelledError] exI [of _ st] exI [of _ fx]) simp
qed

text \<open>
  Claim C2 as stated fails: in the second connection of this run no STATUS frame
  arrives, and the reading emitted there carries the 42 received in the first one.
\<close>

theorem battery_carried_into_new_session:
  "run_milestones
     (monitor_device (Config\<lparr>output_format := ''json''\<rparr>)
       [(smooth_session 1000
           [\<lparr>poll_fatal = False, poll_time = 1001,
              poll_sleep = \<lparr>woken = [\<lparr>n_clock = clock_at 1002,
                n_char = \<lparr>handle = 46, uuid = UUID_STATUS\<rparr>, n_data = [42]\<rparr>],
                cancelled = False\<rparr>\<rparr>,
            \<lparr>poll_fatal = False, poll_time = 1400, poll_sleep = quiet_sleep\<rparr>],
         quiet_sleep),
        (smooth_session 1410
           [\<lparr>poll_fatal = False, poll_time = 1411,
              poll_sleep = \<lparr>woken = [\<lparr>n_clock = clock_at 1412,
                n_char = \<lparr>handle = 54, uuid = UUID_DATA\<rparr>, n_data = live_frame\<rparr>],
                cancelled = True\<rparr>\<rparr>],
         quiet_sleep)]
       SensorState)
   = Some (CancelledError, 42,
       [Connect [],
        Log DEBUG (MsgNotification 46 UUID_STATUS [42]),
        Disconnect,
        Connect [],
        Log DEBUG (MsgNotification 54 UUID_DATA live_frame),
        PrintReading \<lparr>j_timestamp = Some (2025, 6, 15, 10, 30, 45), j_pm1 = 7,
          j_pm25 = 261, j_pm10 = 521, j_particles = py_round2 366.3125, j_battery = 42\<rparr>,
        Disconnect])"
  using two_session_run by (auto simp: run_milestones_def)

subsection \<open>How a connection ends and what the loop does next\<close>

lemma listen_silence:
  assumes "\<not> poll_fatal p" "last_data_time st = Some t"
    and "float_sub (poll_time p) t > of_int (response_timeout cfg)"
  shows "listen cfg (p # ps) st =
     Some (None, st,
       [Log WARNING (MsgNoResponse (float_sub (poll_time p) t) (response_timeout cfg))])"
  using assms by (simp add: Let_def)

lemma listen_fatal:
  assumes "poll_fatal p"
  shows "listen cfg (p # ps) st =
     Some (None, st, [Log ERROR (Note ''MQTT connection lost, stopping monitoring'')])"
  using assms by simp

lemma connection_fatal_at_start:
  assumes "fatal_at_start env"
  shows "monitor_device_connection cfg env st =
     Some (Some (SystemExit 1), st,
           [Log ERROR (Note ''Aborting due to MQTT connection failure'')])"
  using assms by (simp add: monitor_device_connection_def)

text \<open>
  A connection that returns (after a silence timeout, a failed connect, or a sink
  failure noticed while listening) is followed by one sleep of the retry delay and then
  by the next turn of the loop.
\<close>

lemma monitor_device_after_return:
  assumes "monitor_device_connection cfg env st = Some (None, st1, fx1)"
  shows "monitor_device cfg ((env, quiet_sleep) # rest) st =
     (case monitor_device cfg rest st1 of
        None \<Rightarrow> None
      | Some (e, st3, fx3) \<Rightarrow>
          Some (e, st3, fx1 @ [Log INFO (MsgReconnect 5), Sleep 5] @ fx3))"
  using assms
  by (simp add: asyncio_sleep_quiet retry_delay_def split: option.splits)

text \<open>Cancellation and \<open>sys.exit\<close> end the loop at once, whatever would follow.\<close>

lemma monitor_device_stops:
  "monitor_device_connection cfg env st = Some (Some CancelledError, st1, fx1) \<Longrightarrow>
   monitor_device cfg ((env, sl) # rest) st =
     Some (CancelledError, st1, fx1 @ [Log DEBUG (Note ''Monitoring cancelled'')])"
  "monitor_device_connection cfg env st = Some (Some (SystemExit c), st1, fx1) \<Longrightarrow>
   monitor_device cfg ((env, sl) # rest) st = Some (SystemExit c, st1, fx1)"
  by simp_all

lemma build_time_sync_sample:
  "build_time_sync (datetime_now (clock_at t)) =
     ([25, 6, 15, 10, 30, 45, 0, 6, 64, 0, 30], datetime_now (clock_at t))"
  by (simp add: build_time_sync_def clock_at_def Let_def)

text \<open>
  Claim C5, at the input where the code departs from it: the sink reports a fatal
  condition while the session is listening. The session closes, but the loop does not
  end there: it announces a reconnection, sleeps the retry delay, and ends only when the
  next call of \<open>monitor_device_connection\<close> finds the flag and exits.
\<close>

theorem sink_fatal_while_listening_sleeps_before_exit:
  "run_visible
     (monitor_device Config
        [(smooth_session 1000
            [\<lparr>poll_fatal = True, poll_time = 1001, poll_sleep = quiet_sleep\<rparr>],
          quiet_sleep),
         ((smooth_session 1010 [])\<lparr>fatal_at_start := True\<rparr>, quiet_sleep)]
        SensorState)
   = Some (SystemExit 1,
       [Log INFO (Note ''Connecting''),
        Connect [],
        Log INFO (Note ''Connected successfully''),
        Log INFO (Note ''Starting device initialization...''),
        StartNotify UUID_STATUS,
        StartNotify UUID_SHORT,
        StartNotify UUID_META,
        StartNotify UUID_DATA,
        WriteGattChar UUID_KEY [0, 1, 49, 50, 51, 52, 53, 54, 0, 0, 0, 0, 0, 0, 0, 0, 0, 0] True,
        WriteGattChar UUID_CMD [3] True,
        Log INFO (MsgTimeSync (datetime_now (clock_at 1000))),
        WriteGattChar UUID_KEY [25, 6, 15, 10, 30, 45, 0, 6, 64, 0, 30] True,
        Log INFO (Note ''Device initialization completed''),
        Log INFO (Note ''Listening for sensor data''),
        Log ERROR (Note ''MQTT connection lost, stopping monitoring''),
        Disconnect,
        Log INFO (MsgReconnect 5),
        Sleep 5,
        Log ERROR (Note ''Aborting due to MQTT connection failure'')])"
proof -
  have nd: "\<not> mqtt_auto_discovery Config" by (simp add: Config_def)
  have f: "fatal_at_start ((smooth_session 1010 [])\<lparr>fatal_at_start := True\<rparr>)" by simp
  have addr: "device_address Config = []" by (simp add: Config_def)
  show ?thesis
    by (simp add: run_visible_def smooth_connection [OF nd] connection_fatal_at_start [OF f]
        addr asyncio_sleep_quiet retry_delay_def initialize_device_quiet
        build_auth_key_123456 build_time_sync_sample CMD_START_def visible_def)
qed


subsection \<open>The handshake on the transport\<close>

lemma transport_ops_simps [simp]:
  "transport_ops [] = []"
  "transport_ops (xs @ ys) = transport_ops xs @ transport_ops ys"
  "transport_ops (Log l m # xs) = transport_ops xs"
  "transport_ops (PrintReading r # xs) = transport_ops xs"
  "transport_ops (Publish t q # xs) = transport_ops xs"
  "transport_ops (PublishDiscovery a # xs) = transport_ops xs"
  "transport_ops (Sleep n # xs) = transport_ops xs"
  "transport_ops (Connect a # xs) = Connect a # transport_ops xs"
  "transport_ops (Disconnect # xs) = Disconnect # transport_ops xs"
  "transport_ops (StartNotify u # xs) = StartNotify u # transport_ops xs"
  "transport_ops (WriteGattChar u d c # xs) = WriteGattChar u d c # transport_ops xs"
  by (simp_all add: transport_ops_def)

lemma handler_no_transport:
  assumes "notification_handler cfg clk ch b st = Inr (st', fx)"
  shows "transport_ops fx = []"
proof -
  consider (data) "lower (uuid ch) = lower UUID_DATA"
    | (status) "lower (uuid ch) = lower UUID_STATUS"
    | (meta) "lower (uuid ch) = lower UUID_META"
    | (short) "lower (uuid ch) = lower UUID_SHORT"
    | (other) "lower (uuid ch) \<noteq> lower UUID_DATA" "lower (uuid ch) \<noteq> lower UUID_STATUS"
        "lower (uuid ch) \<noteq> lower UUID_META" "lower (uuid ch) \<noteq> lower UUID_SHORT"
    by blast
  then show ?thesis
  proof cases
    case data
    show ?thesis
    proof (cases "length b = 20")
      case True
      from decode_data_frame_20 [OF this] obtain d where
        "decode_data_frame b = Inr (Some d)" by blast
      from handler_data_decoded [OF data this, of cfg clk st] assms show ?thesis
        by (auto simp: output_json_data_def output_text_data_def publish_mqtt_def Let_def
            split: if_splits)
    next
      case False
      with handler_data_invalid [OF data False, of cfg clk st] assms show ?thesis by auto
    qed
  next
    case status
    with handler_status [OF status, of cfg clk b st] assms show ?thesis by (cases b) auto
  next
    case meta
    with handler_meta [OF meta, of cfg clk b st] assms show ?thesis by auto
  next
    case short
    with handler_short [OF short, of cfg clk b st] assms show ?thesis by auto
  next
    case other
    with handler_other [OF other, of cfg clk b st] assms show ?thesis by auto
  qed
qed

lemma deliver_no_transport: "transport_ops (snd (deliver cfg ns st)) = []"
proof (induction ns arbitrary: st)
  case Nil
  then show ?case by simp
next
  case (Cons n ns)
  from handler_total [of cfg "n_clock n" "n_char n" "n_data n" st] obtain st1 fx1 where
    h: "notification_handler cfg (n_clock n) (n_char n) (n_data n) st = Inr (st1, fx1)"
    by blast
  obtain st2 fx2 where d: "deliver cfg ns st1 = (st2, fx2)"
    by (cases "deliver cfg ns st1")
  from Cons.IH [of st1] handler_no_transport [OF h] h d show ?case
    by simp
qed

lemma await_ok:
  "raises env = None \<Longrightarrow>
   await cfg env operation st =
     (None, fst (deliver cfg (arrivals env) st), operation # snd (deliver cfg (arrivals env) st))"
  by (simp add: await_def split: prod.splits)

lemma initialize_device_ops:
  assumes "\<forall>k<7. raises (hs k) = None"
  shows "\<exists>st' fx. initialize_device cfg hs n wall st = (None, st', fx)
     \<and> transport_ops fx =
         [StartNotify UUID_STATUS, StartNotify UUID_SHORT, StartNotify UUID_META,
          StartNotify UUID_DATA,
          WriteGattChar UUID_KEY (fst (build_auth_key n)) True,
          WriteGattChar UUID_CMD CMD_START True,
          WriteGattChar UUID_KEY (fst (build_time_sync wall)) True]"
proof -
  from assms have ok: "raises (hs 0) = None" "raises (hs 1) = None" "raises (hs 2) = None"
    "raises (hs 3) = None" "raises (hs 4) = None" "raises (hs 5) = None" "raises (hs 6) = None"
    "raises (hs (Suc 0)) = None"
    by simp_all
  show ?thesis
    by (simp add: initialize_device_def Let_def emit_def await_ok ok deliver_no_transport)
qed

lemma listen_no_transport:
  "listen cfg ps st = Some (r, st', fx) \<Longrightarrow> transport_ops fx = []"
proof (induction ps arbitrary: st r st' fx)
  case Nil
  then show ?case by simp
next
  case (Cons p ps)
  have sl: "asyncio_sleep cfg (poll_sleep p) 1 st =
      ((if cancelled (poll_sleep p) then Some CancelledError else None),
       fst (deliver cfg (woken (poll_sleep p)) st),
       Sleep 1 # snd (deliver cfg (woken (poll_sleep p)) st))"
    by (simp add: asyncio_sleep_def split: prod.splits)
  from Cons.prems show ?case
    by (auto simp: sl Let_def deliver_no_transport dest: Cons.IH
        split: if_splits option.splits prod.splits)
qed


lemma await_ops:
  "transport_ops (snd (snd (await cfg env operation st))) = transport_ops [operation]"
proof -
  obtain st1 fx1 where d: "deliver cfg (arrivals env) st = (st1, fx1)"
    by (cases "deliver cfg (arrivals env) st")
  with deliver_no_transport [of cfg "arrivals env" st] show ?thesis
    by (simp add: await_def transport_ops_def)
qed

lemma except_log_no_transport: "transport_ops (except_log e) = []"
  by (cases e) simp_all

lemma session_body_ops:
  assumes "is_connected env" "\<forall>k<7. raises (handshake_env env k) = None"
    and "session_body cfg env st = Some (r, st', fx)"
  shows "transport_ops fx =
         [StartNotify UUID_STATUS, StartNotify UUID_SHORT, StartNotify UUID_META,
          StartNotify UUID_DATA,
          WriteGattChar UUID_KEY (fst (build_auth_key (rand_num env))) True,
          WriteGattChar UUID_CMD CMD_START True,
          WriteGattChar UUID_KEY (fst (build_time_sync (sync_now env))) True]"
proof -
  let ?st0 = st
  from initialize_device_ops [OF assms(2), of cfg "rand_num env" "sync_now env" st]
  obtain st1 fx1 where
    i: "initialize_device cfg (handshake_env env) (rand_num env) (sync_now env) st
          = (None, st1, fx1)"
    and ops: "transport_ops fx1 =
         [StartNotify UUID_STATUS, StartNotify UUID_SHORT, StartNotify UUID_META,
          StartNotify UUID_DATA,
          WriteGattChar UUID_KEY (fst (build_auth_key (rand_num env))) True,
          WriteGattChar UUID_CMD CMD_START True,
          WriteGattChar UUID_KEY (fst (build_time_sync (sync_now env))) True]"
    by blast
  from assms(1,3) i obtain fx2 where
    l: "listen cfg (polls env) (st1\<lparr>last_data_time := Some (listen_start env)\<rparr>)
          = Some (r, st', fx2)"
    and fx: "fx = [Log INFO (Note ''Connected successfully''),
                   Log DEBUG (Note ''Performing service discovery...''),
                   Log DEBUG (Note ''Service discovery completed'')]
                  @ fx1
                  @ (if mqtt_auto_discovery cfg
                     then publish_home_assistant_discovery cfg (device_address cfg) else [])
                  @ [Log INFO (Note ''Listening for sensor data'')] @ fx2"
    by (auto simp: session_body_def emit_def split: option.splits)
  from listen_no_transport [OF l] ops show ?thesis
    unfolding fx by (simp add: publish_home_assistant_discovery_def)
qed

lemma connection_ops:
  assumes "\<not> fatal_at_start env" "raises (connect_env env) = None" "is_connected env"
    and "\<forall>k<7. raises (handshake_env env k) = None"
    and "monitor_device_connection cfg env st = Some (r, st', fx)"
  shows "transport_ops fx =
         [Connect (device_address cfg),
          StartNotify UUID_STATUS, StartNotify UUID_SHORT, StartNotify UUID_META,
          StartNotify UUID_DATA,
          WriteGattChar UUID_KEY (fst (build_auth_key (rand_num env))) True,
          WriteGattChar UUID_CMD CMD_START True,
          WriteGattChar UUID_KEY (fst (build_time_sync (sync_now env))) True,
          Disconnect]"
proof -
  let ?st1 = "fst (deliver cfg (arrivals (connect_env env)) st)"
  let ?fx1 = "snd (deliver cfg (arrivals (connect_env env)) st)"
  from assms(1,2,5) obtain r2 st2 fx2 r3 st3 fx3 where
    b: "session_body cfg env ?st1 = Some (r2, st2, fx2)"
    and d: "await cfg (disconnect_env env) Disconnect st2 = (r3, st3, fx3)"
    and fx: "fx = [Log INFO (Note ''Connecting'')] @ (Connect (device_address cfg) # ?fx1)
              @ fx2 @ fx3
              @ (case (case r3 of Some e \<Rightarrow> Some e | None \<Rightarrow> r2) of
                   Some e \<Rightarrow> except_log e | None \<Rightarrow> [])"
    by (auto simp: monitor_device_connection_def await_ok Let_def
        split: option.splits prod.splits)
  from await_ops [of cfg "disconnect_env env" Disconnect st2] d
  have t3: "transport_ops fx3 = [Disconnect]" by simp
  from session_body_ops [OF assms(3,4) b] t3 show ?thesis
    unfolding fx
    by (simp add: deliver_no_transport except_log_no_transport split: option.splits)
qed

lemma build_auth_key_layout:
  assumes "n < 1000000"
  shows "fst (build_auth_key n) =
     [0, 1] @ [of_nat (48 + n div 100000 mod 10), of_nat (48 + n div 10000 mod 10),
               of_nat (48 + n div 1000 mod 10), of_nat (48 + n div 100 mod 10),
               of_nat (48 + n div 10 mod 10), of_nat (48 + n mod 10)]
       @ replicate 10 0"
  by (simp add: build_auth_key_def Let_def format_06d_digits [OF assms] encode_ascii_def
      byte_of_digit_char del: of_nat_add)

lemma uint_byte_of_masked:
  assumes "0 \<le> x" "x < 256"
  shows "uint (word_of_int (x AND 255) :: byte) = x"
proof -
  have "x AND 255 = take_bit 8 x"
    by (simp add: take_bit_eq_mask mask_eq_exp_minus_1)
  also have "take_bit 8 x = x"
    using assms by (simp add: take_bit_int_eq_self)
  finally have "x AND 255 = x" .
  then show ?thesis
    using assms by (simp add: uint_word_of_int take_bit_eq_mod)
qed

lemma build_time_sync_bytes:
  "fst (build_time_sync wall) =
     map word_of_int
       [(if \<not> (0 \<le> dt_year wall - 2000 \<and> dt_year wall - 2000 \<le> 255) then 0
         else dt_year wall - 2000) AND 255,
        dt_month wall AND 255, dt_day wall AND 255, dt_hour wall AND 255,
        dt_minute wall AND 255, dt_second wall AND 255]
     @ [0, 6, 64, 0, 30]"
  by (simp add: build_time_sync_def Let_def)

lemma build_time_sync_values:
  assumes "valid_datetime wall"
  shows "map uint
       (map word_of_int
          [(if \<not> (0 \<le> dt_year wall - 2000 \<and> dt_year wall - 2000 \<le> 255) then 0
            else dt_year wall - 2000) AND 255,
           dt_month wall AND 255, dt_day wall AND 255, dt_hour wall AND 255,
           dt_minute wall AND 255, dt_second wall AND 255] :: byte list) =
     [(if 0 \<le> dt_year wall - 2000 \<and> dt_year wall - 2000 \<le> 255
       then dt_year wall - 2000 else 0),
      dt_month wall, dt_day wall, dt_hour wall, dt_minute wall, dt_second wall]"
  using assms
  by (simp add: valid_datetime_def uint_byte_of_masked)

text \<open>
  Claim C6. In a connection that is established and whose seven handshake operations
  all succeed, the operations on the transport are, in this order: the connect; the
  four subscriptions (STATUS, SHORT, META, DATA); the confirmed write of the 18-byte
  authentication packet \<open>00 01\<close>, six ASCII digits of the nonce, ten zero bytes; the
  confirmed write of the start command \<open>03\<close>; the confirmed write of the 11-byte time
  packet (years since 2000, or 0 when that is outside 0..255, then month, day, hour,
  minute, second, then \<open>00 06 40 00 1e\<close>); and, when the session ends, the disconnect.
  The handshake is run once per connection and nothing else is written.
\<close>

theorem handshake_sequence:
  assumes "\<not> fatal_at_start env" and "raises (connect_env env) = None" and "is_connected env"
    and "\<forall>k<7. raises (handshake_env env k) = None"
    and "rand_num env < 1000000" and "valid_datetime (sync_now env)"
    and "monitor_device_connection cfg env st = Some (r, st', fx)"
  shows "\<exists>digits tb.
       transport_ops fx =
         [Connect (device_address cfg),
          StartNotify UUID_STATUS, StartNotify UUID_SHORT, StartNotify UUID_META,
          StartNotify UUID_DATA,
          WriteGattChar UUID_KEY ([0, 1] @ digits @ replicate 10 0) True,
          WriteGattChar UUID_CMD [3] True,
          WriteGattChar UUID_KEY (tb @ [0, 6, 64, 0, 30]) True,
          Disconnect]
     \<and> length ([0, 1] @ digits @ replicate 10 0) = 18
     \<and> map uint digits =
         [48 + int (rand_num env div 100000 mod 10), 48 + int (rand_num env div 10000 mod 10),
          48 + int (rand_num env div 1000 mod 10), 48 + int (rand_num env div 100 mod 10),
          48 + int (rand_num env div 10 mod 10), 48 + int (rand_num env mod 10)]
     \<and> length (tb @ [0, 6, 64, 0, 30]) = 11
     \<and> map uint tb =
         [(if 0 \<le> dt_year (sync_now env) - 2000 \<and> dt_year (sync_now env) - 2000 \<le> 255
           then dt_year (sync_now env) - 2000 else 0),
          dt_month (sync_now env), dt_day (sync_now env), dt_hour (sync_now env),
          dt_minute (sync_now env), dt_second (sync_now env)]"
proof -
  let ?n = "rand_num env"
  let ?digits = "[of_nat (48 + ?n div 100000 mod 10), of_nat (48 + ?n div 10000 mod 10),
               of_nat (48 + ?n div 1000 mod 10), of_nat (48 + ?n div 100 mod 10),
               of_nat (48 + ?n div 10 mod 10), of_nat (48 + ?n mod 10)] :: byte list"
  let ?tb = "map word_of_int
       [(if \<not> (0 \<le> dt_year (sync_now env) - 2000 \<and> dt_year (sync_now env) - 2000 \<le> 255)
         then 0 else dt_year (sync_now env) - 2000) AND 255,
        dt_month (sync_now env) AND 255, dt_day (sync_now env) AND 255,
        dt_hour (sync_now env) AND 255, dt_minute (sync_now env) AND 255,
        dt_second (sync_now env) AND 255] :: byte list"
  have tb: "fst (build_time_sync (sync_now env)) = ?tb @ [0, 6, 64, 0, 30]"
    by (rule build_time_sync_bytes)
  have tbv: "map uint ?tb =
         [(if 0 \<le> dt_year (sync_now env) - 2000 \<and> dt_year (sync_now env) - 2000 \<le> 255
           then dt_year (sync_now env) - 2000 else 0),
          dt_month (sync_now env), dt_day (sync_now env), dt_hour (sync_now env),
          dt_minute (sync_now env), dt_second (sync_now env)]"
    by (rule build_time_sync_values [OF assms(6)])
  have tbl: "length (?tb @ [0, 6, 64, 0, 30]) = 11" by simp
  have dv: "map uint ?digits =
         [48 + int (?n div 100000 mod 10), 48 + int (?n div 10000 mod 10),
          48 + int (?n div 1000 mod 10), 48 + int (?n div 100 mod 10),
          48 + int (?n div 10 mod 10), 48 + int (?n mod 10)]"
    by (simp add: uint_digit_byte del: of_nat_add)
  have dl: "length ([0, 1] @ ?digits @ replicate 10 (0 :: byte)) = 18" by simp
  from connection_ops [OF assms(1-4,7)]
  have "transport_ops fx =
         [Connect (device_address cfg),
          StartNotify UUID_STATUS, StartNotify UUID_SHORT, StartNotify UUID_META,
          StartNotify UUID_DATA,
          WriteGattChar UUID_KEY ([0, 1] @ ?digits @ replicate 10 0) True,
          WriteGattChar UUID_CMD [3] True,
          WriteGattChar UUID_KEY (?tb @ [0, 6, 64, 0, 30]) True,
          Disconnect]"
    by (simp only: build_auth_key_layout [OF assms(5)] tb CMD_START_def)
  then have "transport_ops fx =
         [Connect (device_address cfg),
          StartNotify UUID_STATUS, StartNotify UUID_SHORT, StartNotify UUID_META,
          StartNotify UUID_DATA,
          WriteGattChar UUID_KEY ([0, 1] @ ?digits @ replicate 10 0) True,
          WriteGattChar UUID_CMD [3] True,
          WriteGattChar UUID_KEY (?tb @ [0, 6, 64, 0, 30]) True,
          Disconnect]
     \<and> length ([0, 1] @ ?digits @ replicate 10 (0 :: byte)) = 18
     \<and> map uint ?digits =
         [48 + int (?n div 100000 mod 10), 48 + int (?n div 10000 mod 10),
          48 + int (?n div 1000 mod 10), 48 + int (?n div 100 mod 10),
          48 + int (?n div 10 mod 10), 48 + int (?n mod 10)]
     \<and> length (?tb @ [0, 6, 64, 0, 30]) = 11
     \<and> map uint ?tb =
         [(if 0 \<le> dt_year (sync_now env) - 2000 \<and> dt_year (sync_now env) - 2000 \<le> 255
           then dt_year (sync_now env) - 2000 else 0),
          dt_month (sync_now env), dt_day (sync_now env), dt_hour (sync_now env),
          dt_minute (sync_now env), dt_second (sync_now env)]"
    using dl dv tbl tbv by (intro conjI) assumption+
  then show ?thesis
    by (intro exI [of _ ?digits] exI [of _ ?tb])
qed

theorem handshake_sequence_witness:
  "\<exists>r st' fx digits tb.
     monitor_device_connection Config
       (smooth_session 1000
          [\<lparr>poll_fatal = False, poll_time = 1001,
             poll_sleep = \<lparr>woken = [], cancelled = True\<rparr>\<rparr>])
       SensorState = Some (r, st', fx)
   \<and> transport_ops fx =
         [Connect [],
          StartNotify UUID_STATUS, StartNotify UUID_SHORT, StartNotify UUID_META,
          StartNotify UUID_DATA,
          WriteGattChar UUID_KEY ([0, 1] @ digits @ replicate 10 0) True,
          WriteGattChar UUID_CMD [3] True,
          WriteGattChar UUID_KEY (tb @ [0, 6, 64, 0, 30]) True,
          Disconnect]
   \<and> map uint digits = [49, 50, 51, 52, 53, 54]
   \<and> map uint tb = [25, 6, 15, 10, 30, 45]"
proof -
  let ?env = "smooth_session 1000
          [\<lparr>poll_fatal = False, poll_time = 1001,
             poll_sleep = \<lparr>woken = [], cancelled = True\<rparr>\<rparr>]"
  have nd: "\<not> mqtt_auto_discovery Config" by (simp add: Config_def)
  have t: "\<not> float_sub 1001 1000 > 300" by (simp add: fl64_eval)
  have rt: "response_timeout Config = 300" by (simp add: Config_def)
  have "\<exists>r st' fx. monitor_device_connection Config ?env SensorState = Some (r, st', fx)"
    by (simp add: smooth_connection [OF nd] rt t asyncio_sleep_def SensorState_def)
  then obtain r st' fx where
    run: "monitor_device_connection Config ?env SensorState = Some (r, st', fx)"
    by blast
  have h: "\<not> fatal_at_start ?env" "raises (connect_env ?env) = None" "is_connected ?env"
    "\<forall>k<7. raises (handshake_env ?env k) = None" "rand_num ?env < 1000000"
    "valid_datetime (sync_now ?env)"
    by (simp_all add: smooth_session_def quiet_await_def valid_datetime_def clock_at_def)
  have v: "rand_num ?env = 123456" "sync_now ?env = datetime_now (clock_at 1000)"
    "device_address Config = []"
    by (simp_all add: smooth_session_def Config_def)
  from handshake_sequence [OF h run] run show ?thesis
    unfolding v by (auto simp: clock_at_def)
qed


end
